theory Spec2Isabelle
  imports Complex_Main "HOL-Library.Multiset" "HOL-Library.Char_ord" "HOL-Library.List_Lexorder"
begin

section \<open>Conventions of the embedding\<close>

text \<open>
  The program is TypeScript (browser client) and JavaScript (relay server).
  \<^item> Identifiers of rooms, players and game sessions are opaque strings in the source;
    they are the type variable \<open>'id\<close> here. Where the source orders them with
    \<open>localeCompare\<close>, the order is the linear order of \<open>'id\<close>.
  \<^item> Strings whose characters the code inspects (room codes, the text that is hashed) are
    lists of UTF-16 code units, \<open>jsstring\<close>. Other strings (names, colours) are \<open>string\<close>.
  \<^item> Ranks, points and scores are integers in the source's \<open>number\<close> type and stay far
    below \<open>2 ^ 53\<close>; they are \<open>int\<close>. Times, cooldowns and coordinates are \<open>real\<close>: the
    rounding of the source's double arithmetic is not modelled.
  \<^item> \<open>Math.random()\<close> is an argument of the function that draws it.
  \<^item> Mutation of an object is state passing: the function returns the new object.
\<close>

type_synonym jsstring = "nat list"

definition str :: "string \<Rightarrow> jsstring" where
  "str s = map of_char s"

section \<open>Ghost.ts: the avatar\<close>

record 'id Ghost =
  id_g :: 'id
  name_g :: string
  color :: string
  position :: "real \<times> real"
  velocity :: "real \<times> real"
  isDashing :: bool
  dashCooldown :: real
  hasBomb :: bool
  dashTimeout :: "nat option"

definition dashDuration :: real where
  "dashDuration = 500"

definition dashCooldownTime :: real where
  "dashCooldownTime = 2000"

definition baseSpeed :: real where
  "baseSpeed = 3"

definition dashSpeed :: real where
  "dashSpeed = 8"

text \<open>The constructor of \<open>Ghost\<close>.\<close>

definition new_Ghost :: "'id \<Rightarrow> string \<Rightarrow> string \<Rightarrow> real \<Rightarrow> real \<Rightarrow> 'id Ghost" where
  "new_Ghost i n c startX startY =
     \<lparr>id_g = i, name_g = n, color = c, position = (startX, startY), velocity = (0, 0),
      isDashing = False, dashCooldown = 0, hasBomb = False, dashTimeout = None\<rparr>"

text \<open>
  \<open>activateDash\<close>: \<open>h\<close> is the handle that \<open>window.setTimeout\<close> returns. The callback it
  registers is \<open>dashTimeoutFires\<close>, run by the browser after \<open>dashDuration\<close>.
\<close>

definition activateDash :: "nat \<Rightarrow> 'id Ghost \<Rightarrow> 'id Ghost" where
  "activateDash h g =
     (if dashCooldown g \<le> 0 \<and> \<not> isDashing g
      then g\<lparr>isDashing := True, dashTimeout := Some h\<rparr>
      else g)"

definition dashTimeoutFires :: "'id Ghost \<Rightarrow> 'id Ghost" where
  "dashTimeoutFires g = g\<lparr>isDashing := False, dashCooldown := dashCooldownTime\<rparr>"

definition updateCooldown :: "real \<Rightarrow> 'id Ghost \<Rightarrow> 'id Ghost" where
  "updateCooldown deltaTime g =
     (if dashCooldown g > 0
      then g\<lparr>dashCooldown := max 0 (dashCooldown g - deltaTime)\<rparr>
      else g)"

text \<open>\<open>move\<close>: \<open>bounds\<close> is the pair of \<open>width\<close> and \<open>height\<close>.\<close>

definition move :: "real \<Rightarrow> real \<Rightarrow> real \<times> real \<Rightarrow> 'id Ghost \<Rightarrow> 'id Ghost" where
  "move dx dy bounds g =
     (let spd = (if isDashing g then dashSpeed else baseSpeed);
          magnitude = sqrt (dx * dx + dy * dy);
          v = (if magnitude > 0 then (dx / magnitude * spd, dy / magnitude * spd) else (0, 0));
          px = fst (position g) + fst v;
          py = snd (position g) + snd v
      in g\<lparr>velocity := v,
            position := (max 20 (min (fst bounds - 20) px), max 20 (min (snd bounds - 20) py))\<rparr>)"

section \<open>lib/api.ts: the records of the storage\<close>

text \<open>
  The timestamps \<open>created_at\<close>, \<open>updated_at\<close> and \<open>joined_at\<close> are left out; a table is
  the list of its rows in insertion order, which is the order \<open>ORDER BY joined_at ASC\<close>
  returns.
\<close>

datatype RoomStatus = Waiting | Playing | Finished

datatype SessionStatus = Pending | Active | Completed

record 'id Room =
  id_r :: 'id
  room_code :: jsstring
  host_name :: string
  min_players :: int
  max_games :: int
  status_r :: RoomStatus

record 'id Player =
  id_p :: 'id
  room_id :: 'id
  player_name :: string
  ghost_color :: string
  total_score :: int

record 'id GameResult =
  player_id :: 'id
  player_name_r :: string
  rank :: int
  points :: int

record ('id, 'blob) GameSession =
  id_s :: 'id
  room_id_s :: 'id
  game_type :: string
  game_number :: int
  status_s :: SessionStatus
  results :: "'id GameResult list"
  game_state :: 'blob
  started_at :: "string option"
  completed_at :: "string option"

section \<open>GameManager.ts: points\<close>

definition calculatePoints :: "int \<Rightarrow> int \<Rightarrow> int" where
  "calculatePoints rnk totalPlayers = totalPlayers - rnk + 1"

section \<open>The state every minigame keeps\<close>

text \<open>
  \<open>ghosts\<close> is a \<open>Map<string, Ghost>\<close>: the list of its values in insertion order, one
  per key. \<open>ghosts_set\<close> is \<open>Map.set\<close> (a present key keeps its place), \<open>ghosts_get\<close> is
  \<open>Map.get\<close>, and \<open>ghosts_modify\<close> is an assignment to a field of the object stored
  under a key.
\<close>

record 'id GameState =
  ghosts :: "'id Ghost list"
  eliminatedPlayers :: "'id list"
  gameCompleted :: bool

fun ghosts_set :: "'id Ghost \<Rightarrow> 'id Ghost list \<Rightarrow> 'id Ghost list" where
  "ghosts_set g [] = [g]"
| "ghosts_set g (h # hs) = (if id_g h = id_g g then g # hs else h # ghosts_set g hs)"

definition ghosts_get :: "'id Ghost list \<Rightarrow> 'id \<Rightarrow> 'id Ghost option" where
  "ghosts_get gs k = find (\<lambda>g. id_g g = k) gs"

definition ghosts_modify :: "'id \<Rightarrow> ('id Ghost \<Rightarrow> 'id Ghost) \<Rightarrow> 'id Ghost list \<Rightarrow> 'id Ghost list" where
  "ghosts_modify k f gs = map (\<lambda>g. if id_g g = k then f g else g) gs"

text \<open>
  What a game sends out: the object given to \<open>gameSocket.updateGameState\<close> (a list of
  keys with their values), the call of \<open>onGameComplete\<close>, and the scheduling of the next
  animation frame.
\<close>

datatype 'id jsvalue =
    Null
  | Bool bool
  | Number real
  | Id 'id
  | Ids "'id list"
  | Results "'id GameResult list"

type_synonym 'id blob = "(string \<times> 'id jsvalue) list"

datatype 'id effect =
    UpdateGameState "'id blob"
  | GameComplete "'id GameResult list"
  | CancelAnimationFrame
  | RequestAnimationFrame

definition remainingPlayers :: "'id Ghost list \<Rightarrow> 'id list \<Rightarrow> 'id Ghost list" where
  "remainingPlayers gs eliminated = filter (\<lambda>g. id_g g \<notin> set eliminated) gs"

section \<open>The ranking every minigame computes when one player remains\<close>

text \<open>
  The block is written out in each game loop and in each handler (for example
  TagBombGame.tsx, lines 225 to 265): the winner first, the eliminated players in reverse
  order of elimination, then every roster player not yet listed, and a sort by rank
  (\<open>Array.prototype.sort\<close> is stable, as \<open>sort_key\<close> is). BoulderRunGame writes the
  points of the eliminated as \<open>total - (i + 1)\<close>, which is the same number.
\<close>

definition eliminatedResult :: "int \<Rightarrow> 'id Ghost list \<Rightarrow> nat \<times> 'id \<Rightarrow> 'id GameResult list" where
  "eliminatedResult totalPlayers gs ip =
     (case ghosts_get gs (snd ip) of
        None \<Rightarrow> []
      | Some ghost \<Rightarrow>
          (let rnk = int (fst ip) + 2
           in [\<lparr>player_id = id_g ghost, player_name_r = name_g ghost,
                rank = rnk, points = totalPlayers - rnk + 1\<rparr>]))"

definition missingResult :: "int \<Rightarrow> 'id set \<Rightarrow> 'id Player \<Rightarrow> 'id GameResult list" where
  "missingResult totalPlayers allPlayerIds player =
     (if id_p player \<notin> allPlayerIds
      then [\<lparr>player_id = id_p player, player_name_r = player_name player,
             rank = totalPlayers, points = 1\<rparr>]
      else [])"

definition computeResults ::
  "'id Player list \<Rightarrow> 'id Ghost list \<Rightarrow> 'id list \<Rightarrow> 'id Ghost \<Rightarrow> 'id GameResult list" where
  "computeResults players gs eliminated winner =
     (let totalPlayers = int (length players);
          results1 = [\<lparr>player_id = id_g winner, player_name_r = name_g winner,
                       rank = 1, points = totalPlayers\<rparr>];
          eliminatedInOrder = rev eliminated;
          results2 = results1
            @ concat (map (eliminatedResult totalPlayers gs) (enumerate 0 eliminatedInOrder));
          allPlayerIds = set (map player_id results2);
          results3 = results2 @ concat (map (missingResult totalPlayers allPlayerIds) players)
      in sort_key rank results3)"

section \<open>TagBombGame.tsx: the seed selection\<close>

text \<open>
  \<open>simpleHash\<close>. The variable \<open>hash\<close> holds a 32-bit signed integer after every round:
  \<open>hash << 5\<close> and \<open>hash & hash\<close> both convert their result with ToInt32 (the
  representative of the number modulo \<open>2 ^ 32\<close> between \<open>- 2 ^ 31\<close> and \<open>2 ^ 31 - 1\<close>),
  and the subtraction and addition between them are exact in double arithmetic.
\<close>

definition toInt32 :: "int \<Rightarrow> int" where
  "toInt32 n = (n + 2 ^ 31) mod 2 ^ 32 - 2 ^ 31"

definition hashRound :: "int \<Rightarrow> nat \<Rightarrow> int" where
  "hashRound hash char = toInt32 ((toInt32 (hash * 2 ^ 5) - hash) + int char)"

definition simpleHash :: "jsstring \<Rightarrow> int" where
  "simpleHash s = \<bar>foldl hashRound 0 s\<bar>"

text \<open>\<open>Number.prototype.toString\<close> on a length: the decimal digits.\<close>

fun toString :: "nat \<Rightarrow> jsstring" where
  "toString n = (if n < 10 then [48 + n] else toString (n div 10) @ [48 + n mod 10])"

declare toString.simps [simp del]

text \<open>
  The choice of a bomb holder: sort the candidates by identifier, hash the text, index
  the sorted list with the hash modulo its length. On an empty list the source reads
  index \<open>NaN\<close> and then fails on the undefined element: \<open>None\<close>.
\<close>

definition selectByHash :: "jsstring \<Rightarrow> ('a \<Rightarrow> 'id::linorder) \<Rightarrow> 'a list \<Rightarrow> 'a option" where
  "selectByHash text key candidates =
     (let sorted = sort_key key candidates;
          seed = simpleHash text
      in if sorted = [] then None
         else Some (sorted ! nat (seed mod int (length sorted))))"

definition initialBombHolder :: "jsstring \<Rightarrow> ('id::linorder) Player list \<Rightarrow> 'id Player option" where
  "initialBombHolder gameSessionId players = selectByHash gameSessionId id_p players"

definition nextBombHolder ::
  "jsstring \<Rightarrow> 'id list \<Rightarrow> ('id::linorder) Ghost list \<Rightarrow> 'id Ghost option" where
  "nextBombHolder gameSessionId eliminated remaining =
     selectByHash (gameSessionId @ toString (length eliminated)) id_g remaining"

section \<open>The start of a minigame\<close>

text \<open>
  Every game fills its map of ghosts with \<open>players.forEach\<close>; \<open>place\<close> gives the start
  position of the player at an index.
\<close>

definition createGhosts :: "(nat \<Rightarrow> real \<times> real) \<Rightarrow> 'id Player list \<Rightarrow> 'id Ghost list" where
  "createGhosts place players =
     foldl (\<lambda>gs ip. ghosts_set
              (new_Ghost (id_p (snd ip)) (player_name (snd ip)) (ghost_color (snd ip))
                 (fst (place (fst ip))) (snd (place (fst ip)))) gs)
       [] (enumerate 0 players)"

text \<open>The results of the branch \<open>players.length < 2\<close>.\<close>

definition loneResults :: "'id Player list \<Rightarrow> 'id GameResult list" where
  "loneResults players =
     map (\<lambda>player. \<lparr>player_id = id_p player, player_name_r = player_name player,
                     rank = 1, points = 1\<rparr>) players"

subsection \<open>TagBombGame.tsx\<close>

record 'id TagBombState = "'id GameState" +
  bombHolderId :: "'id option"
  bombTimer :: real
  gameStartTime :: real
  bombPassCooldown :: real
  lastBombPassTime :: real

definition gridPlace :: "nat \<Rightarrow> nat \<Rightarrow> real \<times> real" where
  "gridPlace n index =
     (let gridCols = nat \<lceil>sqrt (real n)\<rceil>;
          col = index mod gridCols;
          row = index div gridCols
      in (150 + real col * 150, 150 + real row * 150))"

text \<open>
  The first effect of the component, lines 45 to 101 and 346: the result is the value
  left in \<open>gameStateRef\<close> and what was sent out. \<open>now\<close> is \<open>Date.now()\<close>.
\<close>

definition TagBombGame_start ::
  "jsstring \<Rightarrow> ('id::linorder) Player list \<Rightarrow> real \<Rightarrow> 'id TagBombState option \<times> 'id effect list" where
  "TagBombGame_start gameSessionId players now =
     (if length players < 2 then (None, [GameComplete (loneResults players)])
      else
        (let gs = createGhosts (gridPlace (length players)) players;
             initialBombHolderId = map_option id_p (initialBombHolder gameSessionId players);
             gs1 = (case initialBombHolderId of
                      None \<Rightarrow> gs
                    | Some k \<Rightarrow> ghosts_modify k (\<lambda>g. g\<lparr>hasBomb := True\<rparr>) gs)
         in (Some \<lparr>ghosts = gs1, eliminatedPlayers = [], gameCompleted = False,
                   bombHolderId = initialBombHolderId, bombTimer = 30000,
                   gameStartTime = now, bombPassCooldown = 0, lastBombPassTime = now\<rparr>,
             [RequestAnimationFrame])))"

subsection \<open>PlatformPushGame.tsx and FallingTilesGame.tsx\<close>

text \<open>
  Both place the ghosts on a circle inside the platform. Of their state only the part
  shared with the other games is kept (the push cooldown, the platform and the tiles
  play no part in what follows).
\<close>

definition circlePlace :: "real \<times> real \<times> real \<times> real \<Rightarrow> nat \<Rightarrow> nat \<Rightarrow> real \<times> real" where
  "circlePlace platformBounds n index =
     (case platformBounds of (bx, by, width, height) \<Rightarrow>
        (let centerX = bx + width / 2;
             centerY = by + height / 2;
             r = min width height / 3;
             angleStep = (pi * 2) / real n;
             angle = angleStep * real index
         in (centerX + cos angle * r, centerY + sin angle * r)))"

definition PLATFORM_MARGIN :: real where
  "PLATFORM_MARGIN = 100"

definition TILE_GAP :: real where
  "TILE_GAP = 4"

definition PlatformPushGame_start ::
  "'id Player list \<Rightarrow> 'id GameState option \<times> 'id effect list" where
  "PlatformPushGame_start players =
     (if length players < 2 then (None, [GameComplete (loneResults players)])
      else
        (let platformBounds = (PLATFORM_MARGIN, PLATFORM_MARGIN,
                               800 - PLATFORM_MARGIN * 2, 600 - PLATFORM_MARGIN * 2)
         in (Some \<lparr>ghosts = createGhosts (circlePlace platformBounds (length players)) players,
                   eliminatedPlayers = [], gameCompleted = False\<rparr>,
             [RequestAnimationFrame])))"

definition FallingTilesGame_start ::
  "'id Player list \<Rightarrow> 'id GameState option \<times> 'id effect list" where
  "FallingTilesGame_start players =
     (if length players < 2 then (None, [GameComplete (loneResults players)])
      else
        (let platformBounds = (TILE_GAP, TILE_GAP + 60,
                               800 - TILE_GAP * 2, 600 - TILE_GAP * 2 - 60)
         in (Some \<lparr>ghosts = createGhosts (circlePlace platformBounds (length players)) players,
                   eliminatedPlayers = [], gameCompleted = False\<rparr>,
             [RequestAnimationFrame])))"

section \<open>BoulderRunGame.tsx\<close>

record Boulder =
  x_b :: real
  y_b :: real
  radius :: real
  speed :: real

record 'id BoulderRunState = "'id GameState" +
  boulders :: "Boulder list"

text \<open>The references of the component that the loop reads and writes.\<close>

record 'id BoulderRunRefs =
  gameStateRef :: "'id BoulderRunState option"
  lastTimeRef :: real
  lastSpawnRef :: real
  keysPressed :: "string set"

definition linePlace :: "nat \<Rightarrow> nat \<Rightarrow> real \<times> real" where
  "linePlace n i =
     (let startY = 600 - 80;
          spacing = 800 / (real n + 1)
      in (spacing * (real i + 1), startY))"

text \<open>
  The first effect of the component, lines 166 to 198 and 364. It has no branch on the
  number of players.
\<close>

definition BoulderRunGame_start :: "'id Player list \<Rightarrow> 'id BoulderRunRefs \<times> 'id effect list" where
  "BoulderRunGame_start players =
     (\<lparr>gameStateRef = Some \<lparr>ghosts = createGhosts (linePlace (length players)) players,
                            eliminatedPlayers = [], gameCompleted = False, boulders = []\<rparr>,
       lastTimeRef = 0, lastSpawnRef = 0, keysPressed = {}\<rparr>,
      [RequestAnimationFrame])"

text \<open>\<open>spawnBoulder\<close>: the three numbers are the three calls of \<open>Math.random()\<close>.\<close>

definition spawnBoulder :: "real \<times> real \<times> real \<Rightarrow> Boulder list \<Rightarrow> Boulder list" where
  "spawnBoulder rnd bs =
     (case rnd of (r1, r2, r3) \<Rightarrow>
        (let rad = r1 * 25 + 20
         in bs @ [\<lparr>x_b = r2 * (800 - rad * 2) + rad, y_b = - rad, radius = rad,
                    speed = r3 * 1.5 + 1\<rparr>]))"

definition keyAxis :: "string set \<Rightarrow> real \<times> real" where
  "keyAxis keys =
     (let dx0 = (0::real);
          dy0 = (0::real);
          dx1 = (if ''a'' \<in> keys \<or> ''arrowleft'' \<in> keys then dx0 - 1 else dx0);
          dx2 = (if ''d'' \<in> keys \<or> ''arrowright'' \<in> keys then dx1 + 1 else dx1);
          dy1 = (if ''w'' \<in> keys \<or> ''arrowup'' \<in> keys then dy0 - 1 else dy0);
          dy2 = (if ''s'' \<in> keys \<or> ''arrowdown'' \<in> keys then dy1 + 1 else dy1)
      in (dx2, dy2))"

definition driftGhost :: "'id \<Rightarrow> 'id list \<Rightarrow> 'id Ghost \<Rightarrow> 'id Ghost" where
  "driftGhost currentPlayerId eliminated g =
     (let g1 = (if id_g g \<noteq> currentPlayerId \<and> id_g g \<notin> set eliminated
                then g\<lparr>position := (fst (position g) + fst (velocity g),
                                     snd (position g) + snd (velocity g))\<rparr>
                else g)
      in g1\<lparr>velocity := (fst (velocity g1) * 0.9, snd (velocity g1) * 0.9)\<rparr>)"

definition touches :: "'id Ghost \<Rightarrow> Boulder \<Rightarrow> bool" where
  "touches ghost b =
     (let dx = fst (position ghost) - x_b b;
          dy = snd (position ghost) - y_b b
      in dx * dx + dy * dy \<le> (radius b + 20) * (radius b + 20))"

text \<open>
  Lines 258 to 273. The test for membership stands before the loop over the boulders;
  inside it every touching boulder pushes the identifier and publishes the list.
\<close>

definition hitByBoulder ::
  "'id Ghost \<Rightarrow> 'id list \<times> 'id effect list \<Rightarrow> Boulder \<Rightarrow> 'id list \<times> 'id effect list" where
  "hitByBoulder ghost acc b =
     (if touches ghost b
      then (fst acc @ [id_g ghost],
            snd acc @ [UpdateGameState [(''eliminated_players'', Ids (fst acc @ [id_g ghost]))]])
      else acc)"

definition collideGhost ::
  "Boulder list \<Rightarrow> 'id list \<times> 'id effect list \<Rightarrow> 'id Ghost \<Rightarrow> 'id list \<times> 'id effect list" where
  "collideGhost bs acc ghost =
     (if id_g ghost \<in> set (fst acc) then acc else foldl (hitByBoulder ghost) acc bs)"

definition collisions ::
  "'id Ghost list \<Rightarrow> Boulder list \<Rightarrow> 'id list \<Rightarrow> 'id list \<times> 'id effect list" where
  "collisions gs bs eliminated = foldl (collideGhost bs) (eliminated, []) gs"

text \<open>
  The loop, lines 210 to 362 without the drawing. \<open>t\<close> is the timestamp of the frame and
  \<open>rnd\<close> the random numbers a spawn would draw.
\<close>

definition loop ::
  "'id \<Rightarrow> 'id Player list \<Rightarrow> real \<Rightarrow> real \<times> real \<times> real \<Rightarrow> 'id BoulderRunRefs
     \<Rightarrow> 'id BoulderRunRefs \<times> 'id effect list" where
  "loop currentPlayerId players t rnd refs =
     (case gameStateRef refs of
        None \<Rightarrow> (refs, [])
      | Some state \<Rightarrow>
          if lastTimeRef refs = 0
          then (refs\<lparr>lastTimeRef := t\<rparr>, [RequestAnimationFrame])
          else
            (let dt = t - lastTimeRef refs;
                 spawn = (t - lastSpawnRef refs > 800);
                 bs1 = (if spawn then spawnBoulder rnd (boulders state) else boulders state);
                 refs1 = refs\<lparr>lastTimeRef := t,
                               lastSpawnRef := (if spawn then t else lastSpawnRef refs)\<rparr>;
                 eliminated = eliminatedPlayers state;
                 gs1 = (if ghosts_get (ghosts state) currentPlayerId \<noteq> None
                           \<and> currentPlayerId \<notin> set eliminated
                        then ghosts_modify currentPlayerId
                               (move (fst (keyAxis (keysPressed refs)))
                                  (snd (keyAxis (keysPressed refs))) (800, 600))
                               (ghosts state)
                        else ghosts state);
                 gs2 = map (driftGhost currentPlayerId eliminated) gs1;
                 bs2 = map (\<lambda>b. b\<lparr>y_b := y_b b + speed b * dt * 0.05\<rparr>) bs1;
                 bs3 = filter (\<lambda>b. y_b b - radius b < 600) bs2;
                 hit = collisions gs2 bs3 eliminated;
                 state1 = state\<lparr>ghosts := gs2, eliminatedPlayers := fst hit, boulders := bs3\<rparr>;
                 alive = remainingPlayers gs2 (fst hit)
             in if length alive = 1 \<and> \<not> gameCompleted state1
                then
                  (case alive of
                     winner # _ \<Rightarrow>
                       (let rs = computeResults players gs2 (fst hit) winner
                        in (refs1\<lparr>gameStateRef := Some (state1\<lparr>gameCompleted := True\<rparr>)\<rparr>,
                            snd hit @
                            [UpdateGameState [(''eliminated_players'', Ids (fst hit)),
                                              (''game_completed'', Bool True),
                                              (''results'', Results rs)],
                             GameComplete rs]))
                   | [] \<Rightarrow> (refs1\<lparr>gameStateRef := Some state1\<rparr>, snd hit))
                else (refs1\<lparr>gameStateRef := Some state1\<rparr>, snd hit @ [RequestAnimationFrame])))"

section \<open>TagBombGame.tsx: the bomb timer and the disconnect\<close>

text \<open>
  Lines 199 to 290 of \<open>gameLoop\<close>: the timer of the bomb, the elimination of its holder,
  and then either the final ranking or the choice of the next holder. \<open>now\<close> is
  \<open>Date.now()\<close>, read once for the frame. A \<open>null\<close> holder is \<open>None\<close>.
\<close>

definition bombTimerStep ::
  "jsstring \<Rightarrow> ('id::linorder) Player list \<Rightarrow> real \<Rightarrow> 'id TagBombState
     \<Rightarrow> 'id TagBombState \<times> 'id effect list" where
  "bombTimerStep gameSessionId players now state =
     (let timeSinceLastPass = now - lastBombPassTime state;
          remainingTime = max 0 (30000 - timeSinceLastPass);
          state1 = state\<lparr>bombTimer := remainingTime\<rparr>
      in case bombHolderId state1 of
           None \<Rightarrow> (state1, [RequestAnimationFrame])
         | Some holder \<Rightarrow>
             if \<not> bombTimer state1 \<le> 0 then (state1, [RequestAnimationFrame])
             else
               (let eliminated = eliminatedPlayers state1 @ [holder];
                    gs = ghosts_modify holder (\<lambda>g. g\<lparr>hasBomb := False\<rparr>) (ghosts state1);
                    state2 = state1\<lparr>ghosts := gs, eliminatedPlayers := eliminated\<rparr>;
                    out = [UpdateGameState [(''eliminated_players'', Ids eliminated),
                                            (''bomb_holder_id'', Null)]];
                    remaining = remainingPlayers gs eliminated
                in if length remaining = 1 \<and> \<not> gameCompleted state2
                   then
                     (case remaining of
                        winner # _ \<Rightarrow>
                          (let rs = computeResults players gs eliminated winner
                           in (state2\<lparr>gameCompleted := True\<rparr>,
                               out @
                               [UpdateGameState [(''eliminated_players'', Ids eliminated),
                                                 (''game_completed'', Bool True),
                                                 (''results'', Results rs)],
                                GameComplete rs]))
                      | [] \<Rightarrow> (state2\<lparr>gameCompleted := True\<rparr>, out))
                   else if length remaining > 0
                   then
                     (case nextBombHolder gameSessionId eliminated remaining of
                        None \<Rightarrow> (state2, out)
                      | Some newBombHolder \<Rightarrow>
                          (state2\<lparr>ghosts := ghosts_modify (id_g newBombHolder)
                                               (\<lambda>g. g\<lparr>hasBomb := True\<rparr>) gs,
                                   bombHolderId := Some (id_g newBombHolder),
                                   lastBombPassTime := now, bombPassCooldown := 0\<rparr>,
                           out @ [RequestAnimationFrame]))
                   else (state2, out @ [RequestAnimationFrame])))"

text \<open>
  \<open>handlePlayerDisconnected\<close>, lines 439 to 511; the handlers of PlatformPushGame and
  FallingTilesGame have the same first lines.
\<close>

definition handlePlayerDisconnected ::
  "'id \<Rightarrow> 'id Player list \<Rightarrow> 'id \<Rightarrow> ('id, 'a) GameState_scheme option
     \<Rightarrow> ('id, 'a) GameState_scheme option \<times> 'id effect list" where
  "handlePlayerDisconnected currentPlayerId players playerId stateRef =
     (case stateRef of
        None \<Rightarrow> (None, [])
      | Some state \<Rightarrow>
          if playerId = currentPlayerId then (Some state, [])
          else if playerId \<in> set (eliminatedPlayers state) then (Some state, [])
          else
            (let eliminated = eliminatedPlayers state @ [playerId];
                 state1 = state\<lparr>eliminatedPlayers := eliminated\<rparr>;
                 out = [UpdateGameState [(''eliminated_players'', Ids eliminated)]];
                 remaining = remainingPlayers (ghosts state1) eliminated
             in if length remaining = 1 \<and> \<not> gameCompleted state1
                then
                  (case remaining of
                     winner # _ \<Rightarrow>
                       (let rs = computeResults players (ghosts state1) eliminated winner
                        in (Some (state1\<lparr>gameCompleted := True\<rparr>),
                            out @
                            [UpdateGameState [(''eliminated_players'', Ids eliminated),
                                              (''game_completed'', Bool True),
                                              (''results'', Results rs)],
                             GameComplete rs]))
                   | [] \<Rightarrow> (Some (state1\<lparr>gameCompleted := True\<rparr>), out))
                else (Some state1, out)))"

text \<open>
  \<open>handleGameStateChange\<close>, lines 398 to 437: the handler of \<open>game-state-changed\<close>. It
  looks at three keys of the object received, one after the other; a key that is absent
  (\<open>undefined\<close>) leaves its part of the state as it is.
\<close>

definition syncBombHolder :: "'id blob \<Rightarrow> 'id TagBombState \<Rightarrow> 'id TagBombState" where
  "syncBombHolder gameState state =
     (case map_of gameState ''bomb_holder_id'' of
        None \<Rightarrow> state
      | Some v \<Rightarrow>
          (let holder = (case v of Id k \<Rightarrow> Some k | _ \<Rightarrow> None)
           in state\<lparr>bombHolderId := holder,
                    ghosts := map (\<lambda>g. g\<lparr>hasBomb := (Some (id_g g) = holder)\<rparr>) (ghosts state)\<rparr>))"

definition syncEliminated ::
  "'id blob \<Rightarrow> 'id TagBombState \<Rightarrow> 'id TagBombState \<times> 'id effect list" where
  "syncEliminated gameState state =
     (case map_of gameState ''eliminated_players'' of
        Some (Ids newEliminated) \<Rightarrow>
          (let state1 = state\<lparr>eliminatedPlayers := newEliminated\<rparr>;
               remaining = remainingPlayers (ghosts state1) newEliminated
           in if length remaining = 1 \<and> \<not> gameCompleted state1
                 \<and> map_of gameState ''game_completed'' = Some (Bool True)
              then
                (case map_of gameState ''results'' of
                   Some (Results rs) \<Rightarrow> (state1\<lparr>gameCompleted := True\<rparr>, [GameComplete rs])
                 | _ \<Rightarrow> (state1\<lparr>gameCompleted := True\<rparr>, []))
              else (state1, []))
      | _ \<Rightarrow> (state, []))"

definition syncBombTimer :: "'id blob \<Rightarrow> 'id TagBombState \<Rightarrow> 'id TagBombState" where
  "syncBombTimer gameState state =
     (case map_of gameState ''bomb_timer'' of
        Some (Number n) \<Rightarrow> state\<lparr>bombTimer := n\<rparr>
      | _ \<Rightarrow> state)"

definition handleGameStateChange ::
  "'id blob \<Rightarrow> 'id TagBombState option \<Rightarrow> 'id TagBombState option \<times> 'id effect list" where
  "handleGameStateChange gameState stateRef =
     (case stateRef of
        None \<Rightarrow> (None, [])
      | Some state \<Rightarrow>
          (let step = syncEliminated gameState (syncBombHolder gameState state)
           in (Some (syncBombTimer gameState (fst step)), snd step)))"

section \<open>Strings of the runtime\<close>

text \<open>
  \<open>String.prototype.trim\<close> removes the white space and line terminators of ECMAScript from
  both ends.
\<close>

definition isWhiteSpace :: "nat \<Rightarrow> bool" where
  "isWhiteSpace c \<longleftrightarrow>
     c \<in> {9, 10, 11, 12, 13, 32, 160, 5760, 8232, 8233, 8239, 8287, 12288, 65279}
     \<or> (8192 \<le> c \<and> c \<le> 8202)"

definition trim :: "jsstring \<Rightarrow> jsstring" where
  "trim s = rev (dropWhile isWhiteSpace (rev (dropWhile isWhiteSpace s)))"

text \<open>
  \<open>String.prototype.toUpperCase\<close> is an argument \<open>upper\<close> of the functions that call it.
  \<open>toUpperCase_latin1\<close> is that function on strings of code units below U+0100, after the
  Unicode case mappings: the letters \<open>a\<close> to \<open>z\<close> and U+00E0 to U+00FE (without the
  division sign U+00F7) move down by 32, the micro sign goes to U+039C, \<open>y\<close> with
  diaeresis to U+0178, and the sharp s U+00DF becomes the two letters \<open>SS\<close>. Code units
  from U+0100 on are passed through; no statement below relies on them.
\<close>

definition upperUnit :: "nat \<Rightarrow> jsstring" where
  "upperUnit c =
     (if 97 \<le> c \<and> c \<le> 122 then [c - 32]
      else if c = 181 then [924]
      else if c = 223 then [83, 83]
      else if 224 \<le> c \<and> c \<le> 254 \<and> c \<noteq> 247 then [c - 32]
      else if c = 255 then [376]
      else [c])"

definition toUpperCase_latin1 :: "jsstring \<Rightarrow> jsstring" where
  "toUpperCase_latin1 s = concat (map upperUnit s)"

text \<open>\<open>String.prototype.charAt\<close>: the empty string outside the range.\<close>

definition charAt :: "jsstring \<Rightarrow> int \<Rightarrow> jsstring" where
  "charAt s i = (if 0 \<le> i \<and> i < int (length s) then [s ! nat i] else [])"

section \<open>server/index.js: the storage and its endpoints\<close>

text \<open>
  The three tables of schema.sql. A request is one function from the database to its
  answer and the new database. \<open>HttpError\<close> carries the status code, which makes
  \<open>request\<close> of api.ts throw.
\<close>

record ('id, 'blob) Database =
  rooms_t :: "'id Room list"
  players_t :: "'id Player list"
  game_sessions_t :: "('id, 'blob) GameSession list"

datatype api_error = HttpError nat

text \<open>
  GET /api/rooms/:roomCode. \<open>sqlNorm\<close> is \<open>UPPER(TRIM(_))\<close> of the SQL comparison.
\<close>

definition get_room_by_code ::
  "(jsstring \<Rightarrow> jsstring) \<Rightarrow> (jsstring \<Rightarrow> jsstring) \<Rightarrow> jsstring \<Rightarrow> ('id, 'blob) Database
     \<Rightarrow> api_error + 'id Room" where
  "get_room_by_code upper sqlNorm roomCode db =
     (if roomCode = [] \<or> trim roomCode = [] then Inl (HttpError 400)
      else
        (let normalizedCode = upper (trim roomCode)
         in case find (\<lambda>r. sqlNorm (room_code r) = sqlNorm normalizedCode) (rooms_t db) of
              None \<Rightarrow> Inl (HttpError 404)
            | Some room \<Rightarrow> Inr room))"

text \<open>PATCH /api/rooms/:roomId.\<close>

definition patch_room ::
  "'id \<Rightarrow> RoomStatus \<Rightarrow> ('id, 'blob) Database \<Rightarrow> (api_error + 'id Room) \<times> ('id, 'blob) Database" where
  "patch_room roomId status db =
     (let db1 = db\<lparr>rooms_t := map (\<lambda>r. if id_r r = roomId then r\<lparr>status_r := status\<rparr> else r)
                                 (rooms_t db)\<rparr>
      in case find (\<lambda>r. id_r r = roomId) (rooms_t db1) of
           None \<Rightarrow> (Inl (HttpError 404), db1)
         | Some room \<Rightarrow> (Inr room, db1))"

text \<open>
  POST /api/players. \<open>newId\<close> is the identifier the database generates; the foreign key
  of \<open>room_id\<close> makes the insertion fail for an unknown room.
\<close>

definition post_player ::
  "'id \<Rightarrow> 'id \<Rightarrow> string \<Rightarrow> string \<Rightarrow> ('id, 'blob) Database
     \<Rightarrow> (api_error + 'id Player) \<times> ('id, 'blob) Database" where
  "post_player newId roomId name colour db =
     (if roomId \<notin> id_r ` set (rooms_t db) then (Inl (HttpError 500), db)
      else
        (let player = \<lparr>id_p = newId, room_id = roomId, player_name = name,
                       ghost_color = colour, total_score = 0\<rparr>
         in (Inr player, db\<lparr>players_t := players_t db @ [player]\<rparr>)))"

text \<open>GET /api/rooms/:roomId/players.\<close>

definition get_players_by_room :: "'id \<Rightarrow> ('id, 'blob) Database \<Rightarrow> 'id Player list" where
  "get_players_by_room roomId db = filter (\<lambda>p. room_id p = roomId) (players_t db)"

text \<open>GET /api/players/:playerId.\<close>

definition get_player :: "'id \<Rightarrow> ('id, 'blob) Database \<Rightarrow> api_error + 'id Player" where
  "get_player playerId db =
     (case find (\<lambda>p. id_p p = playerId) (players_t db) of
        None \<Rightarrow> Inl (HttpError 404)
      | Some player \<Rightarrow> Inr player)"

text \<open>
  The column \<open>total_score\<close> of schema.sql is an \<open>integer\<close> of 32 bits: the database
  refuses a value outside its range.
\<close>

definition inInt32 :: "int \<Rightarrow> bool" where
  "inInt32 n = (- (2 ^ 31) \<le> n \<and> n \<le> 2 ^ 31 - 1)"

text \<open>
  PATCH /api/players/:playerId. The \<open>UPDATE\<close> fails on a score that the column cannot
  hold; the handler then answers 500 and nothing is written.
\<close>

definition patch_player ::
  "'id \<Rightarrow> int \<Rightarrow> ('id, 'blob) Database \<Rightarrow> (api_error + 'id Player) \<times> ('id, 'blob) Database" where
  "patch_player playerId score db =
     (if \<not> inInt32 score then (Inl (HttpError 500), db)
      else
        (let db1 = db\<lparr>players_t := map (\<lambda>p. if id_p p = playerId then p\<lparr>total_score := score\<rparr> else p)
                                      (players_t db)\<rparr>
         in case find (\<lambda>p. id_p p = playerId) (players_t db1) of
              None \<Rightarrow> (Inl (HttpError 404), db1)
            | Some player \<Rightarrow> (Inr player, db1)))"

text \<open>
  PATCH /api/game-sessions/:sessionId: the body gives some of the five fields; a field
  left \<open>undefined\<close> is \<open>None\<close>.
\<close>

record ('id, 'blob) SessionPatch =
  status_u :: "SessionStatus option"
  results_u :: "'id GameResult list option"
  started_at_u :: "string option"
  completed_at_u :: "string option"
  game_state_u :: "'blob option"

definition applyPatch :: "('id, 'blob) SessionPatch \<Rightarrow> ('id, 'blob) GameSession \<Rightarrow> ('id, 'blob) GameSession" where
  "applyPatch u g =
     g\<lparr>status_s := (case status_u u of None \<Rightarrow> status_s g | Some v \<Rightarrow> v),
       results := (case results_u u of None \<Rightarrow> results g | Some v \<Rightarrow> v),
       started_at := (case started_at_u u of None \<Rightarrow> started_at g | Some v \<Rightarrow> Some v),
       completed_at := (case completed_at_u u of None \<Rightarrow> completed_at g | Some v \<Rightarrow> Some v),
       game_state := (case game_state_u u of None \<Rightarrow> game_state g | Some v \<Rightarrow> v)\<rparr>"

definition patch_game_session ::
  "'id \<Rightarrow> ('id, 'blob) SessionPatch \<Rightarrow> ('id, 'blob) Database
     \<Rightarrow> (api_error + ('id, 'blob) GameSession) \<times> ('id, 'blob) Database" where
  "patch_game_session sessionId u db =
     (if status_u u = None \<and> results_u u = None \<and> started_at_u u = None
          \<and> completed_at_u u = None \<and> game_state_u u = None
      then (Inl (HttpError 400), db)
      else
        (let db1 = db\<lparr>game_sessions_t :=
                        map (\<lambda>g. if id_s g = sessionId then applyPatch u g else g)
                          (game_sessions_t db)\<rparr>
         in case find (\<lambda>g. id_s g = sessionId) (game_sessions_t db1) of
              None \<Rightarrow> (Inl (HttpError 404), db1)
            | Some g \<Rightarrow> (Inr g, db1)))"

text \<open>
  The socket handler of \<open>game-state-update\<close>, lines 502 to 519: one UPDATE that sets the
  column \<open>game_state\<close> of the session to the object received, then the broadcast of that
  object to the group of the session. The result is the new database and what is sent.
\<close>

definition on_game_state_update ::
  "'id \<Rightarrow> 'blob \<Rightarrow> ('id, 'blob) Database \<Rightarrow> ('id, 'blob) Database \<times> 'blob" where
  "on_game_state_update gameSessionId gameState db =
     (db\<lparr>game_sessions_t :=
           map (\<lambda>g. if id_s g = gameSessionId then g\<lparr>game_state := gameState\<rparr> else g)
             (game_sessions_t db)\<rparr>,
      gameState)"

definition persisted_state :: "'id \<Rightarrow> ('id, 'blob) Database \<Rightarrow> 'blob option" where
  "persisted_state gameSessionId db =
     map_option game_state (find (\<lambda>g. id_s g = gameSessionId) (game_sessions_t db))"

section \<open>Room.ts: RoomManager\<close>

definition chars :: jsstring where
  "chars = str ''ABCDEFGHJKLMNPQRSTUVWXYZ23456789''"

text \<open>\<open>generateRoomCode\<close>: \<open>rnd i\<close> is the value of \<open>Math.random()\<close> in round \<open>i\<close>.\<close>

definition generateRoomCode :: "(nat \<Rightarrow> real) \<Rightarrow> jsstring" where
  "generateRoomCode rnd =
     foldl (\<lambda>code i. code @ charAt chars \<lfloor>rnd i * real (length chars)\<rfloor>) [] [0..<6]"

definition palette :: "string list" where
  "palette = [''blue'', ''purple'', ''pink'', ''red'', ''orange'',
              ''yellow'', ''green'', ''cyan'', ''white'', ''gray'']"

text \<open>The requests an operation of the client sends, in order.\<close>

datatype 'id api_call =
    GetRoomByCode jsstring
  | GetPlayersByRoom 'id
  | CreatePlayer 'id string "string option"

text \<open>
  \<open>api.rooms.getByCode\<close> of api.ts requests the URL made of \<open>/api/rooms/\<close> and the code,
  which is put into the URL as it is. What the handler of GET /api/rooms/:roomCode receives
  as \<open>req.params.roomCode\<close> is what the URL parser of the browser and the router of
  Express make of that URL: a question mark or a number sign ends the path, a slash
  separates segments, a percent sign starts an escape that is decoded. That function is
  the argument \<open>urlParam\<close>. It is \<open>None\<close> when the request does not come back with a room
  from that handler: no route matches, an escape is malformed, or the URL is that of the
  list of all rooms, whose answer has no \<open>status\<close>, so that \<open>joinRoom\<close> returns \<open>null\<close>
  at its test of the status.
\<close>

definition rooms_getByCode ::
  "(jsstring \<Rightarrow> jsstring) \<Rightarrow> (jsstring \<Rightarrow> jsstring) \<Rightarrow> (jsstring \<Rightarrow> jsstring option) \<Rightarrow> jsstring
     \<Rightarrow> ('id, 'blob) Database \<Rightarrow> api_error + 'id Room" where
  "rooms_getByCode upper sqlNorm urlParam roomCode db =
     (case urlParam roomCode of
        None \<Rightarrow> Inl (HttpError 404)
      | Some param \<Rightarrow> get_room_by_code upper sqlNorm param db)"

text \<open>
  \<open>joinRoom\<close>: \<open>rnd\<close> is the value of \<open>Math.random()\<close> and \<open>newId\<close> the identifier the
  database gives the new row. The function awaits three requests, and the server serves
  the requests of other clients in between: \<open>env1\<close> is what those do to the database
  between the lookup of the room and the reading of its players, \<open>env2\<close> what they do
  between that reading and the insertion. The result is the returned value (\<open>null\<close> is
  \<open>None\<close>), the database right after the last request of the join, and the requests
  sent. An index outside \<open>availableColors\<close> reads \<open>undefined\<close>; the request then carries
  no colour and the insertion fails on the NOT NULL column.
\<close>

definition joinRoom ::
  "(jsstring \<Rightarrow> jsstring) \<Rightarrow> (jsstring \<Rightarrow> jsstring) \<Rightarrow> (jsstring \<Rightarrow> jsstring option) \<Rightarrow> real
     \<Rightarrow> 'id \<Rightarrow> jsstring \<Rightarrow> string
     \<Rightarrow> (('id, 'blob) Database \<Rightarrow> ('id, 'blob) Database)
     \<Rightarrow> (('id, 'blob) Database \<Rightarrow> ('id, 'blob) Database)
     \<Rightarrow> ('id, 'blob) Database
     \<Rightarrow> ('id Room \<times> 'id Player) option \<times> ('id, 'blob) Database \<times> 'id api_call list" where
  "joinRoom upper sqlNorm urlParam rnd newId roomCode playerName env1 env2 db =
     (let roomCodeUpper = upper (trim roomCode)
      in if roomCodeUpper = [] \<or> length roomCodeUpper \<noteq> 6 then (None, db, [])
         else
           (case rooms_getByCode upper sqlNorm urlParam roomCodeUpper db of
              Inl e \<Rightarrow> (None, db, [GetRoomByCode roomCodeUpper])
            | Inr room \<Rightarrow>
                if status_r room \<noteq> Waiting then (None, db, [GetRoomByCode roomCodeUpper])
                else
                  (let db2 = env1 db;
                       existingPlayers = get_players_by_room (id_r room) db2;
                       calls = [GetRoomByCode roomCodeUpper, GetPlayersByRoom (id_r room)];
                       usedColors = set (map ghost_color existingPlayers);
                       availableColors = filter (\<lambda>c. c \<notin> usedColors) palette
                   in if length availableColors = 0 then (None, db2, calls)
                      else if length existingPlayers \<ge> 10 then (None, db2, calls)
                      else
                        (let k = \<lfloor>rnd * real (length availableColors)\<rfloor>;
                             db3 = env2 db2
                         in if \<not> (0 \<le> k \<and> k < int (length availableColors))
                            then (None, db3, calls @ [CreatePlayer (id_r room) playerName None])
                            else
                              (let randomColor = availableColors ! nat k;
                                   calls1 = calls @ [CreatePlayer (id_r room) playerName
                                                       (Some randomColor)]
                               in case post_player newId (id_r room) playerName randomColor db3 of
                                    (Inl e, db4) \<Rightarrow> (None, db4, calls1)
                                  | (Inr player, db4) \<Rightarrow> (Some (room, player), db4, calls1))))))"

definition updateRoomStatus ::
  "'id \<Rightarrow> RoomStatus \<Rightarrow> ('id, 'blob) Database \<Rightarrow> bool \<times> ('id, 'blob) Database" where
  "updateRoomStatus roomId status db =
     (case patch_room roomId status db of
        (Inl e, db1) \<Rightarrow> (False, db1)
      | (Inr room, db1) \<Rightarrow> (True, db1))"

text \<open>The place of a status in the order waiting, playing, finished.\<close>

fun statusLevel :: "RoomStatus \<Rightarrow> nat" where
  "statusLevel Waiting = 0"
| "statusLevel Playing = 1"
| "statusLevel Finished = 2"

definition roomStatus :: "'id \<Rightarrow> ('id, 'blob) Database \<Rightarrow> RoomStatus option" where
  "roomStatus roomId db = map_option status_r (find (\<lambda>r. id_r r = roomId) (rooms_t db))"

text \<open>A sequence of calls of \<open>updateRoomStatus\<close> for one room.\<close>

definition runUpdates :: "'id \<Rightarrow> RoomStatus list \<Rightarrow> ('id, 'blob) Database \<Rightarrow> ('id, 'blob) Database" where
  "runUpdates roomId reqs db = foldl (\<lambda>d s. snd (updateRoomStatus roomId s d)) db reqs"

section \<open>GameManager.ts: the completion of a game\<close>

text \<open>
  One round of the loop over the results: read the player, write the new score; an
  error of either request is caught and the loop goes on. The requests of one call of
  \<open>completeGame\<close> are served in their order, with no request of another client between
  them.
\<close>

definition updateScore :: "('id, 'blob) Database \<Rightarrow> 'id GameResult \<Rightarrow> ('id, 'blob) Database" where
  "updateScore db result =
     (case get_player (player_id result) db of
        Inl e \<Rightarrow> db
      | Inr player \<Rightarrow>
          snd (patch_player (player_id result) (total_score player + points result) db))"

text \<open>\<open>completeGame\<close>: \<open>now\<close> is \<open>new Date().toISOString()\<close>.\<close>

definition completeGame ::
  "'id \<Rightarrow> 'id GameResult list \<Rightarrow> string \<Rightarrow> ('id, 'blob) Database \<Rightarrow> bool \<times> ('id, 'blob) Database" where
  "completeGame gameId rs now db =
     (case patch_game_session gameId
             \<lparr>status_u = Some Completed, results_u = Some rs, started_at_u = None,
              completed_at_u = Some now, game_state_u = None\<rparr> db of
        (Inl e, db1) \<Rightarrow> (False, db1)
      | (Inr g, db1) \<Rightarrow> (True, foldl updateScore db1 rs))"

definition scoreOf :: "'id \<Rightarrow> ('id, 'blob) Database \<Rightarrow> int option" where
  "scoreOf playerId db = map_option total_score (find (\<lambda>p. id_p p = playerId) (players_t db))"

definition sessionOf :: "'id \<Rightarrow> ('id, 'blob) Database \<Rightarrow> ('id, 'blob) GameSession option" where
  "sessionOf gameId db = find (\<lambda>g. id_s g = gameId) (game_sessions_t db)"

section \<open>Concrete inputs\<close>

text \<open>The roster of the four-player scenario, with strings as identifiers.\<close>

definition mkPlayer :: "string \<Rightarrow> string \<Rightarrow> string \<Rightarrow> string Player" where
  "mkPlayer i n c = \<lparr>id_p = i, room_id = ''r1'', player_name = n, ghost_color = c, total_score = 0\<rparr>"

definition roster4 :: "string Player list" where
  "roster4 = [mkPlayer ''P1'' ''Ana'' ''blue'', mkPlayer ''P2'' ''Bia'' ''red'',
              mkPlayer ''P3'' ''Caio'' ''pink'', mkPlayer ''P4'' ''Davi'' ''green'']"

text \<open>A store with one room, the four players and one active session.\<close>

definition room1 :: "RoomStatus \<Rightarrow> string Room" where
  "room1 st = \<lparr>id_r = ''r1'', room_code = str ''ABCDSS'', host_name = ''Ana'', min_players = 2,
               max_games = 3, status_r = st\<rparr>"

definition session1 :: "(string, string blob) GameSession" where
  "session1 = \<lparr>id_s = ''s1'', room_id_s = ''r1'', game_type = ''tag_bomb'', game_number = 1,
               status_s = Active, results = [], game_state = [], started_at = None,
               completed_at = None\<rparr>"

definition store :: "RoomStatus \<Rightarrow> (string, string blob) Database" where
  "store st = \<lparr>rooms_t = [room1 st], players_t = roster4, game_sessions_t = [session1]\<rparr>"

text \<open>
  States of the games on that roster: a frame of BoulderRunGame in which two falling
  boulders come within reach of the ghost of \<open>P1\<close>; the state TagBombGame starts in for
  the session \<open>game-42\<close> (the bomb is with \<open>P4\<close>) and the ghosts that remain without
  \<open>P4\<close>; and BoulderRunGame with one player and with none.
\<close>

definition boulderRefs :: "string BoulderRunRefs" where
  "boulderRefs =
     \<lparr>gameStateRef = Some \<lparr>ghosts = createGhosts (linePlace 4) roster4, eliminatedPlayers = [],
                            gameCompleted = False,
                            boulders = [\<lparr>x_b = 160, y_b = 469.5, radius = 30, speed = 1\<rparr>,
                                        \<lparr>x_b = 160, y_b = 469, radius = 30, speed = 2\<rparr>]\<rparr>,
      lastTimeRef = 1000, lastSpawnRef = 900, keysPressed = {}\<rparr>"

definition tagState :: "string list \<Rightarrow> string TagBombState" where
  "tagState eliminated =
     \<lparr>ghosts = [new_Ghost ''P1'' ''Ana'' ''blue'' 150 150, new_Ghost ''P2'' ''Bia'' ''red'' 300 150,
                new_Ghost ''P3'' ''Caio'' ''pink'' 150 300,
                (new_Ghost ''P4'' ''Davi'' ''green'' 300 300)\<lparr>hasBomb := True\<rparr>],
      eliminatedPlayers = eliminated, gameCompleted = False, bombHolderId = Some ''P4'',
      bombTimer = 30000, gameStartTime = 1000, bombPassCooldown = 0, lastBombPassTime = 1000\<rparr>"


definition lone :: "string Player list" where
  "lone = [mkPlayer ''P1'' ''Ana'' ''blue'']"

definition loneRefs :: "real \<Rightarrow> bool \<Rightarrow> string BoulderRunRefs" where
  "loneRefs t done =
     \<lparr>gameStateRef = Some \<lparr>ghosts = [new_Ghost ''P1'' ''Ana'' ''blue'' 400 520],
                            eliminatedPlayers = [], gameCompleted = done, boulders = []\<rparr>,
      lastTimeRef = t, lastSpawnRef = 0, keysPressed = {}\<rparr>"

definition emptyRefs :: "real \<Rightarrow> string BoulderRunRefs" where
  "emptyRefs t =
     \<lparr>gameStateRef = Some \<lparr>ghosts = [], eliminatedPlayers = [], gameCompleted = False,
                            boulders = []\<rparr>,
      lastTimeRef = t, lastSpawnRef = 0, keysPressed = {}\<rparr>"

text \<open>
  The ranking of the four-player scenario; the comparison of PostgreSQL in the C locale
  (\<open>TRIM\<close> removes spaces, \<open>UPPER\<close> maps the letters \<open>a\<close> to \<open>z\<close> to capitals); a room code as typed, a room code
  of five code units that ends in the sharp s U+00DF, and the player a join creates.
\<close>

definition ranking4 :: "string GameResult list" where
  "ranking4 = [\<lparr>player_id = ''P1'', player_name_r = ''Ana'', rank = 1, points = 4\<rparr>,
               \<lparr>player_id = ''P4'', player_name_r = ''Davi'', rank = 2, points = 3\<rparr>,
               \<lparr>player_id = ''P2'', player_name_r = ''Bia'', rank = 3, points = 2\<rparr>,
               \<lparr>player_id = ''P3'', player_name_r = ''Caio'', rank = 4, points = 1\<rparr>]"

definition sqlNorm_C :: "jsstring \<Rightarrow> jsstring" where
  "sqlNorm_C s =
     map (\<lambda>c. if 97 \<le> c \<and> c \<le> 122 then c - 32 else c)
       (rev (dropWhile (\<lambda>c. c = 32) (rev (dropWhile (\<lambda>c. c = 32) s))))"

text \<open>The same store when the score of \<open>P1\<close> is the largest the column holds.\<close>

definition topStore :: "(string, string blob) Database" where
  "topStore = \<lparr>rooms_t = [room1 Playing],
               players_t = (mkPlayer ''P1'' ''Ana'' ''blue'')\<lparr>total_score := 2147483647\<rparr> # tl roster4,
               game_sessions_t = [session1]\<rparr>"

definition sharpCode :: jsstring where
  "sharpCode = str ''ABCD'' @ [223]"

definition joined :: "string Player" where
  "joined = \<lparr>id_p = ''P5'', room_id = ''r1'', player_name = ''Eva'', ghost_color = ''cyan'',
             total_score = 0\<rparr>"

definition typedCode :: jsstring where
  "typedCode = str '' abcdss ''"

text \<open>
  The transport of a room code whose part before the first question mark or number sign
  is made of the letters \<open>A\<close> to \<open>Z\<close>, \<open>a\<close> to \<open>z\<close> and digits: that part is the path
  segment, and it reaches the handler as it is. For every other code the value here is
  \<open>None\<close>, which need not be what the browser and the router do; no statement below
  uses it there.
\<close>

definition isAlnum :: "nat \<Rightarrow> bool" where
  "isAlnum c \<longleftrightarrow> (48 \<le> c \<and> c \<le> 57) \<or> (65 \<le> c \<and> c \<le> 90) \<or> (97 \<le> c \<and> c \<le> 122)"

definition urlParam_plain :: "jsstring \<Rightarrow> jsstring option" where
  "urlParam_plain code =
     (let segment = takeWhile (\<lambda>c. c \<noteq> 35 \<and> c \<noteq> 63) code
      in if segment \<noteq> [] \<and> list_all isAlnum segment then Some segment else None)"

text \<open>
  A store whose room has the code \<open>ABC\<close>, and a code with a question mark; another client
  that adds a cyan player to the room \<open>r1\<close>.
\<close>

definition shortStore :: "(string, string blob) Database" where
  "shortStore = \<lparr>rooms_t = [(room1 Waiting)\<lparr>room_code := str ''ABC''\<rparr>], players_t = roster4,
                 game_sessions_t = []\<rparr>"

definition queryCode :: jsstring where
  "queryCode = str ''abc?ef''"

definition rival :: "string Player" where
  "rival = \<lparr>id_p = ''P6'', room_id = ''r1'', player_name = ''Zoe'', ghost_color = ''cyan'',
            total_score = 0\<rparr>"

definition rivalJoins :: "(string, string blob) Database \<Rightarrow> (string, string blob) Database" where
  "rivalJoins db = db\<lparr>players_t := players_t db @ [rival]\<rparr>"

section \<open>Properties of the avatar\<close>

text \<open>
  C9. \<open>activateDash\<close> takes a ghost that is not dashing into the dashing state exactly
  when its cooldown is at most zero; the only fields it writes are \<open>isDashing\<close> and the
  timer handle, and when the guard fails (cooldown running, or already dashing) the ghost
  is returned unchanged. \<open>updateCooldown\<close> changes nothing but the cooldown; from a
  non-negative cooldown it never goes below zero, and for a non-negative elapsed time the
  new cooldown is the old one minus the elapsed time, cut off at zero.
\<close>

theorem dash_activation_and_cooldown:
  fixes g :: "'id Ghost"
  shows "(isDashing (activateDash h g) \<and> \<not> isDashing g \<longleftrightarrow> dashCooldown g \<le> 0 \<and> \<not> isDashing g)
    \<and> (dashCooldown g \<le> 0 \<and> \<not> isDashing g \<longrightarrow>
          activateDash h g = g\<lparr>isDashing := True, dashTimeout := Some h\<rparr>)
    \<and> (\<not> (dashCooldown g \<le> 0 \<and> \<not> isDashing g) \<longrightarrow> activateDash h g = g)
    \<and> updateCooldown dt g = g\<lparr>dashCooldown := dashCooldown (updateCooldown dt g)\<rparr>
    \<and> (0 \<le> dashCooldown g \<longrightarrow> 0 \<le> dashCooldown (updateCooldown dt g))
    \<and> (0 \<le> dashCooldown g \<and> 0 \<le> dt \<longrightarrow>
          dashCooldown (updateCooldown dt g) = max 0 (dashCooldown g - dt)
          \<and> dashCooldown (updateCooldown dt g) \<le> dashCooldown g)"
  by (auto simp: activateDash_def updateCooldown_def)

theorem dash_activation_and_cooldown_witness:
  "isDashing (activateDash 7 (new_Ghost ''p1'' ''Ana'' ''blue'' 150 150))
   \<and> activateDash 8 (activateDash 7 (new_Ghost ''p1'' ''Ana'' ''blue'' 150 150))
       = activateDash 7 (new_Ghost ''p1'' ''Ana'' ''blue'' 150 150)
   \<and> activateDash 9 (dashTimeoutFires (activateDash 7 (new_Ghost ''p1'' ''Ana'' ''blue'' 150 150)))
       = dashTimeoutFires (activateDash 7 (new_Ghost ''p1'' ''Ana'' ''blue'' 150 150))
   \<and> dashCooldown (updateCooldown 1500
        (dashTimeoutFires (activateDash 7 (new_Ghost ''p1'' ''Ana'' ''blue'' 150 150)))) = 500
   \<and> dashCooldown (updateCooldown 2500
        (dashTimeoutFires (activateDash 7 (new_Ghost ''p1'' ''Ana'' ''blue'' 150 150)))) = 0"
  using dash_activation_and_cooldown
    [of 7 "new_Ghost ''p1'' ''Ana'' ''blue'' 150 150" 0]
    dash_activation_and_cooldown
    [of 8 "activateDash 7 (new_Ghost ''p1'' ''Ana'' ''blue'' 150 150)" 0]
    dash_activation_and_cooldown
    [of 9 "dashTimeoutFires (activateDash 7 (new_Ghost ''p1'' ''Ana'' ''blue'' 150 150))" 1500]
    dash_activation_and_cooldown
    [of 9 "dashTimeoutFires (activateDash 7 (new_Ghost ''p1'' ''Ana'' ''blue'' 150 150))" 2500]
  by (simp add: new_Ghost_def dashTimeoutFires_def dashCooldownTime_def activateDash_def
      updateCooldown_def)


section \<open>Properties of the ranking\<close>

lemma ghosts_get_member:
  "k \<in> id_g ` set gs \<Longrightarrow> \<exists>g. ghosts_get gs k = Some g \<and> id_g g = k"
  unfolding ghosts_get_def by (induction gs) auto

lemma eliminated_block:
  "set xs \<subseteq> id_g ` set gs \<Longrightarrow>
     map player_id (concat (map (eliminatedResult N gs) (enumerate n xs))) = xs
   \<and> map rank (concat (map (eliminatedResult N gs) (enumerate n xs)))
           = map (\<lambda>i. int i + 2) [n..<n + length xs]
   \<and> (\<forall>r\<in>set (concat (map (eliminatedResult N gs) (enumerate n xs))).
           points r = N - rank r + 1)"
proof (induction xs arbitrary: n)
  case Nil
  show ?case by simp
next
  case (Cons x xs)
  from Cons.prems obtain g where g: "ghosts_get gs x = Some g" "id_g g = x"
    using ghosts_get_member [of x gs] by auto
  have sub: "set xs \<subseteq> id_g ` set gs" using Cons.prems by simp
  have u: "[n..<n + length (x # xs)] = n # [Suc n..<Suc n + length xs]"
    by (subst upt_rec) simp
  have e: "eliminatedResult N gs (n, x)
             = [\<lparr>player_id = x, player_name_r = name_g g, rank = int n + 2,
                  points = N - (int n + 2) + 1\<rparr>]"
    using g by (simp add: eliminatedResult_def)
  show ?case using Cons.IH [OF sub, of "Suc n"]
    unfolding u by (simp add: e)
qed

lemma sorted_map_int_upt: "sorted (map int [m..<n])"
  by (simp add: sorted_map)

lemma missing_block_empty:
  "id_p ` set ps \<subseteq> A \<Longrightarrow> concat (map (missingResult N A) ps) = []"
  by (induction ps) (auto simp: missingResult_def)

lemma ghosts_roster4: "createGhosts (linePlace 4) roster4 =
  [new_Ghost ''P1'' ''Ana'' ''blue'' 160 520, new_Ghost ''P2'' ''Bia'' ''red'' 320 520,
   new_Ghost ''P3'' ''Caio'' ''pink'' 480 520, new_Ghost ''P4'' ''Davi'' ''green'' 640 520]"
  by (simp add: createGhosts_def roster4_def mkPlayer_def linePlace_def new_Ghost_def enumerate_eq_zip upt_rec)


text \<open>
  C1. Let the roster have \<open>N \<ge> 2\<close> players with distinct identifiers and one ghost each,
  let the elimination list be free of duplicates and hold exactly the roster without the
  winner, and let the step find that winner as the only remaining player. Then the
  results it computes are as many as the players and have the identifiers of the roster,
  each once; the ranks are
  \<open>1, 2, \<dots>, N\<close> in this order; and every record has \<open>points = N - rank + 1\<close>.
\<close>

theorem completed_ranking:
  fixes players :: "'id Player list"
  assumes n2: "2 \<le> length players"
    and dp: "distinct (map id_p players)"
    and gp: "map id_g gs = map id_p players"
    and de: "distinct eliminated"
    and se: "set eliminated = set (map id_p players) - {id_g winner}"
    and rem: "remainingPlayers gs eliminated = [winner]"
  shows "length (computeResults players gs eliminated winner) = length players
    \<and> mset (map player_id (computeResults players gs eliminated winner))
           = mset (map id_p players)
    \<and> map rank (computeResults players gs eliminated winner)
           = map int [1..<length players + 1]
    \<and> (\<forall>r\<in>set (computeResults players gs eliminated winner).
           points r = calculatePoints (rank r) (int (length players)))"
proof -
  let ?N = "int (length players)"
  let ?blk = "concat (map (eliminatedResult ?N gs) (enumerate 0 (rev eliminated)))"
  let ?w = "\<lparr>player_id = id_g winner, player_name_r = name_g winner, rank = 1, points = ?N\<rparr>"
  have "winner \<in> set (remainingPlayers gs eliminated)"
    using rem by simp
  then have win: "winner \<in> set gs" "id_g winner \<notin> set eliminated"
    by (simp_all add: remainingPlayers_def)
  have wroster: "id_g winner \<in> set (map id_p players)"
  proof -
    have "id_g winner \<in> set (map id_g gs)" using win(1) by simp
    then show ?thesis by (simp only: gp)
  qed
  have sub: "set (rev eliminated) \<subseteq> id_g ` set gs"
  proof -
    have "set eliminated \<subseteq> set (map id_g gs)" unfolding gp using se by blast
    then show ?thesis by simp
  qed
  have len: "length eliminated = length players - 1"
  proof -
    have "card (set eliminated) = card (set (map id_p players)) - 1"
      using se wroster by simp
    moreover have "card (set eliminated) = length eliminated"
      using de by (rule distinct_card)
    moreover have "card (set (map id_p players)) = length players"
      using distinct_card [OF dp] by simp
    ultimately show ?thesis by simp
  qed
  have ids: "map player_id ?blk = rev eliminated"
    and rks: "map rank ?blk = map (\<lambda>i. int i + 2) [0..<0 + length (rev eliminated)]"
    and pts: "\<forall>r\<in>set ?blk. points r = ?N - rank r + 1"
    using eliminated_block [OF sub, of ?N 0] by simp_all
  have cover: "id_p ` set players \<subseteq> set (map player_id (?w # ?blk))"
    using se ids by auto
  have mb: "concat (map (missingResult ?N (set (map player_id (?w # ?blk)))) players) = []"
    using cover by (rule missing_block_empty)
  have app: "[?w] @ ?blk = ?w # ?blk"
    by simp
  have res: "computeResults players gs eliminated winner = sort_key rank (?w # ?blk)"
    unfolding computeResults_def Let_def by (simp only: app mb append_Nil2)
  have ranks: "map rank (?w # ?blk) = map int [1..<length players + 1]"
  proof -
    have a: "map (\<lambda>i. int i + 2) [0..<k] = map int [Suc 1..<k + 2]" for k
      by (induction k) auto
    have b: "[1..<length players + 1] = 1 # [Suc 1..<length players + 1]"
      by (rule upt_conv_Cons) (use n2 in arith)
    have l2: "length eliminated + 2 = length players + 1"
      using len n2 by arith
    have "map rank (?w # ?blk) = 1 # map (\<lambda>i. int i + 2) [0..<length eliminated]"
      using rks by simp
    also have "\<dots> = 1 # map int [Suc 1..<length players + 1]"
      by (simp only: a l2)
    also have "\<dots> = map int [1..<length players + 1]"
      by (simp only: b list.map of_nat_1)
    finally show ?thesis .
  qed
  have srt: "sorted (map rank (?w # ?blk))"
    unfolding ranks by (rule sorted_map_int_upt)
  have same: "computeResults players gs eliminated winner = ?w # ?blk"
    unfolding res using srt by (rule sort_key_id_if_sorted)
  have m: "mset (map player_id (?w # ?blk)) = mset (map id_p players)"
  proof -
    have "set (map player_id (?w # ?blk)) = set (map id_p players)"
      using se ids wroster by auto
    moreover have "distinct (map player_id (?w # ?blk))"
      using ids de win(2) by simp
    ultimately show ?thesis using dp
      by (simp only: set_eq_iff_mset_eq_distinct)
  qed
  have p: "\<forall>r\<in>set (?w # ?blk). points r = calculatePoints (rank r) ?N"
    using pts by (simp add: calculatePoints_def)
  have "length (map rank (?w # ?blk)) = length (map int [1..<length players + 1])"
    by (simp only: ranks)
  then have lr: "length (?w # ?blk) = length players"
    by (simp only: length_map length_upt add_diff_cancel_right')
  show ?thesis unfolding same using lr m ranks p by blast
qed


theorem completed_ranking_witness:
  "map (\<lambda>r. (player_id r, rank r, points r))
     (computeResults roster4 (createGhosts (linePlace 4) roster4) [''P3'', ''P2'', ''P4'']
        (new_Ghost ''P1'' ''Ana'' ''blue'' 160 520))
   = [(''P1'', 1, 4), (''P4'', 2, 3), (''P2'', 3, 2), (''P3'', 4, 1)]
   \<and> map rank
     (computeResults roster4 (createGhosts (linePlace 4) roster4) [''P3'', ''P2'', ''P4'']
        (new_Ghost ''P1'' ''Ana'' ''blue'' 160 520)) = map int [1..<length roster4 + 1]"
  using completed_ranking [of roster4 "createGhosts (linePlace 4) roster4"
      "[''P3'', ''P2'', ''P4'']" "new_Ghost ''P1'' ''Ana'' ''blue'' 160 520"]
  unfolding ghosts_roster4
  by (simp add: roster4_def mkPlayer_def new_Ghost_def remainingPlayers_def computeResults_def
      eliminatedResult_def missingResult_def ghosts_get_def enumerate_eq_zip upt_rec
      insort_key.simps)



section \<open>Properties of the start of a game\<close>

text \<open>With distinct identifiers in the roster, the map of ghosts has one ghost per
  player, in the order of the roster.\<close>

lemma ghosts_set_fresh: "id_g g \<notin> id_g ` set gs \<Longrightarrow> ghosts_set g gs = gs @ [g]"
  by (induction gs) auto

lemma createGhosts_fold:
  "distinct (map id_g acc @ map (id_p \<circ> snd) xs) \<Longrightarrow>
   map id_g (foldl (\<lambda>gs ip. ghosts_set
              (new_Ghost (id_p (snd ip)) (player_name (snd ip)) (ghost_color (snd ip))
                 (fst (place (fst ip))) (snd (place (fst ip)))) gs) acc xs)
     = map id_g acc @ map (id_p \<circ> snd) xs"
proof (induction xs arbitrary: acc)
  case Nil
  show ?case by simp
next
  case (Cons x xs)
  let ?g = "new_Ghost (id_p (snd x)) (player_name (snd x)) (ghost_color (snd x))
                 (fst (place (fst x))) (snd (place (fst x)))"
  have idg: "id_g ?g = id_p (snd x)" by (simp add: new_Ghost_def)
  have fresh: "id_g ?g \<notin> id_g ` set acc" using Cons.prems idg by auto
  have d: "distinct (map id_g (acc @ [?g]) @ map (id_p \<circ> snd) xs)"
    using Cons.prems idg by (auto simp: comp_def)
  show ?case using Cons.IH [OF d] ghosts_set_fresh [OF fresh] idg by simp
qed

lemma createGhosts_ids:
  "distinct (map id_p players) \<Longrightarrow> map id_g (createGhosts place players) = map id_p players"
  unfolding createGhosts_def
  using createGhosts_fold [of "[]" "enumerate 0 players" place]
  by (simp add: map_snd_enumerate flip: map_map)


section \<open>Properties of the seed selection\<close>






















section \<open>Properties of the relay's persistence\<close>

text \<open>On the client, the handler applies the keys it receives: without the key of the
  elimination list, the list stays; with it, the list received is adopted.\<close>

lemma syncBombHolder_keeps:
  "eliminatedPlayers (syncBombHolder gameState state) = eliminatedPlayers state
   \<and> gameCompleted (syncBombHolder gameState state) = gameCompleted state
   \<and> bombTimer (syncBombHolder gameState state) = bombTimer state"
  by (simp add: syncBombHolder_def Let_def split: option.splits)

lemma syncBombTimer_keeps:
  "eliminatedPlayers (syncBombTimer gameState state) = eliminatedPlayers state
   \<and> gameCompleted (syncBombTimer gameState state) = gameCompleted state
   \<and> bombHolderId (syncBombTimer gameState state) = bombHolderId state
   \<and> ghosts (syncBombTimer gameState state) = ghosts state"
  by (simp add: syncBombTimer_def split: option.splits jsvalue.splits)

lemma handleGameStateChange_absent_key:
  assumes "map_of gameState ''eliminated_players'' = None"
  shows "handleGameStateChange gameState (Some state)
           = (Some (syncBombTimer gameState (syncBombHolder gameState state)), [])"
    and "map_option eliminatedPlayers (fst (handleGameStateChange gameState (Some state)))
           = Some (eliminatedPlayers state)"
  using assms
  by (simp_all add: handleGameStateChange_def syncEliminated_def syncBombHolder_keeps
      syncBombTimer_keeps)

lemma handleGameStateChange_adopts_list:
  assumes "map_of gameState ''eliminated_players'' = Some (Ids newEliminated)"
  shows "map_option eliminatedPlayers (fst (handleGameStateChange gameState (Some state)))
           = Some newEliminated"
  using assms
  by (simp add: handleGameStateChange_def syncEliminated_def syncBombTimer_keeps Let_def
      split: option.splits jsvalue.splits)

text \<open>
  C3. The handler of \<open>game-state-update\<close> does not merge: it overwrites the stored blob
  with the object received. After \<open>{a: 1}\<close> and then \<open>{b: 2}\<close> the session holds
  \<open>{b: 2}\<close>; after \<open>{b: 2}\<close> and then \<open>{a: 1}\<close> it holds \<open>{a: 1}\<close>. The two orders do
  not leave the same blob, and neither leaves the merge of the two.
\<close>

theorem game_state_update_replaces:
  "persisted_state ''s1''
     (fst (on_game_state_update ''s1'' [(''b'', Number 2)]
        (fst (on_game_state_update ''s1'' [(''a'', Number 1)] (store Playing)))))
     = Some [(''b'', Number 2)]
   \<and> persisted_state ''s1''
     (fst (on_game_state_update ''s1'' [(''a'', Number 1)]
        (fst (on_game_state_update ''s1'' [(''b'', Number 2)] (store Playing)))))
     = Some [(''a'', Number 1)]"
  by (simp add: persisted_state_def on_game_state_update_def store_def session1_def)


section \<open>Properties of the room status\<close>

lemma find_map_status:
  "find (\<lambda>r. id_r r = k) (map (\<lambda>r. if id_r r = k then r\<lparr>status_r := s\<rparr> else r) rs)
     = map_option (\<lambda>r. r\<lparr>status_r := s\<rparr>) (find (\<lambda>r. id_r r = k) rs)"
  by (induction rs) auto

lemma updateRoomStatus_status:
  assumes "roomStatus roomId db = Some s0"
  shows "fst (updateRoomStatus roomId s db)"
    and "roomStatus roomId (snd (updateRoomStatus roomId s db)) = Some s"
  using assms
  by (auto simp: roomStatus_def updateRoomStatus_def patch_room_def find_map_status Let_def
      split: option.splits)

lemma runUpdates_status:
  "roomStatus roomId db = Some s0 \<Longrightarrow>
     roomStatus roomId (runUpdates roomId reqs db) = Some (last (s0 # reqs))"
proof (induction reqs arbitrary: db s0)
  case Nil
  then show ?case by (simp add: runUpdates_def)
next
  case (Cons s reqs)
  have "roomStatus roomId (snd (updateRoomStatus roomId s db)) = Some s"
    using Cons.prems by (rule updateRoomStatus_status(2))
  from Cons.IH [OF this] show ?case by (simp add: runUpdates_def)
qed

lemma last_take_Cons: "i \<le> length xs \<Longrightarrow> last (x # take i xs) = (x # xs) ! i"
proof (induction xs arbitrary: x i)
  case Nil
  then show ?case by simp
next
  case (Cons y ys)
  show ?case
  proof (cases i)
    case 0
    then show ?thesis by simp
  next
    case (Suc n)
    then have "n \<le> length ys" using Cons.prems by simp
    from Cons.IH [OF this, of y] show ?thesis using Suc by simp
  qed
qed


text \<open>
  C4, as stated, fails: a status update of a room that is playing, with the requested
  status waiting, succeeds and leaves the room waiting.
\<close>

theorem status_regression_counterexample:
  "roomStatus ''r1'' (store Playing) = Some Playing
   \<and> updateRoomStatus ''r1'' Waiting (store Playing) = (True, store Waiting)
   \<and> roomStatus ''r1'' (snd (updateRoomStatus ''r1'' Waiting (store Playing))) = Some Waiting"
  by (simp add: roomStatus_def updateRoomStatus_def patch_room_def store_def room1_def)


text \<open>
  C4, amended. A status update of an existing room succeeds and stores the requested
  status, whatever the stored one is; after a sequence of updates the room has the status
  requested last. So the status advances or stays all along a sequence of updates exactly
  when the requested statuses, starting from the stored one, are in the order waiting,
  playing, finished.
\<close>

theorem status_follows_requests:
  assumes "roomStatus roomId db = Some s0"
  shows "fst (updateRoomStatus roomId s db)
    \<and> roomStatus roomId (snd (updateRoomStatus roomId s db)) = Some s
    \<and> roomStatus roomId (runUpdates roomId reqs db) = Some (last (s0 # reqs))
    \<and> (sorted (map statusLevel (s0 # reqs)) \<longleftrightarrow>
         (\<forall>k\<le>length reqs. \<forall>j\<le>k. \<forall>a b.
            roomStatus roomId (runUpdates roomId (take j reqs) db) = Some a
            \<and> roomStatus roomId (runUpdates roomId (take k reqs) db) = Some b
            \<longrightarrow> statusLevel a \<le> statusLevel b))"
proof -
  have at: "roomStatus roomId (runUpdates roomId (take i reqs) db) = Some ((s0 # reqs) ! i)"
    if "i \<le> length reqs" for i
    using runUpdates_status [OF assms, of "take i reqs"] last_take_Cons [OF that, of s0]
    by simp
  have lvl: "map statusLevel (s0 # reqs) ! i = statusLevel ((s0 # reqs) ! i)"
    if "i \<le> length reqs" for i
    using that by (intro nth_map) simp
  have mono: "statusLevel a \<le> statusLevel b"
    if srt: "sorted (map statusLevel (s0 # reqs))" and k: "k \<le> length reqs" and j: "j \<le> k"
      and a: "roomStatus roomId (runUpdates roomId (take j reqs) db) = Some a"
      and b: "roomStatus roomId (runUpdates roomId (take k reqs) db) = Some b"
    for k j a b
  proof -
    have jl: "j \<le> length reqs" using j k by simp
    have "a = (s0 # reqs) ! j" "b = (s0 # reqs) ! k"
      using a b at [OF jl] at [OF k] by simp_all
    moreover have "map statusLevel (s0 # reqs) ! j \<le> map statusLevel (s0 # reqs) ! k"
      using srt j k by (intro sorted_nth_mono) simp_all
    ultimately show ?thesis
      using lvl [OF jl] lvl [OF k] by simp
  qed
  have srt: "sorted (map statusLevel (s0 # reqs))"
    if all: "\<forall>k\<le>length reqs. \<forall>j\<le>k. \<forall>a b.
            roomStatus roomId (runUpdates roomId (take j reqs) db) = Some a
            \<and> roomStatus roomId (runUpdates roomId (take k reqs) db) = Some b
            \<longrightarrow> statusLevel a \<le> statusLevel b"
  proof -
    have "map statusLevel (s0 # reqs) ! j \<le> map statusLevel (s0 # reqs) ! k"
      if "j \<le> k" "k < length (map statusLevel (s0 # reqs))" for j k
    proof -
      have k: "k \<le> length reqs" using that(2) by simp
      then have jl: "j \<le> length reqs" using that(1) by simp
      have "statusLevel ((s0 # reqs) ! j) \<le> statusLevel ((s0 # reqs) ! k)"
        using all k that(1) at [OF jl] at [OF k] by blast
      then show ?thesis
        using lvl [OF jl] lvl [OF k] by simp
    qed
    then show ?thesis
      by (simp only: sorted_iff_nth_mono) blast
  qed
  show ?thesis
    using updateRoomStatus_status [OF assms, of s] runUpdates_status [OF assms, of reqs] mono srt
    by blast
qed

theorem status_follows_requests_witness:
  "roomStatus ''r1'' (runUpdates ''r1'' [Playing, Finished] (store Waiting)) = Some Finished
   \<and> roomStatus ''r1'' (runUpdates ''r1'' [Playing, Finished, Waiting] (store Waiting)) = Some Waiting"
  using status_follows_requests [of "''r1''" "store Waiting" Waiting Playing "[Playing, Finished]"]
    status_follows_requests [of "''r1''" "store Waiting" Waiting Playing "[Playing, Finished, Waiting]"]
  by (simp add: roomStatus_def store_def room1_def)



section \<open>Properties of the elimination list\<close>

lemma id_g_new_Ghost: "id_g (new_Ghost i n c x y) = i"
  by (simp add: new_Ghost_def)

lemma keyAxis_empty: "keyAxis {} = (0, 0)"
  by (simp add: keyAxis_def)

lemma move_rest:
  "20 \<le> x \<Longrightarrow> x \<le> 780 \<Longrightarrow> 20 \<le> y \<Longrightarrow> y \<le> 580 \<Longrightarrow>
     move 0 0 (800, 600) (new_Ghost i n c x y) = new_Ghost i n c x y"
  by (simp add: move_def new_Ghost_def)

lemma drift_rest: "driftGhost cur el (new_Ghost i n c x y) = new_Ghost i n c x y"
  by (simp add: driftGhost_def new_Ghost_def)

lemma touches_new_Ghost:
  "touches (new_Ghost i n c x y) b
     \<longleftrightarrow> (x - x_b b) * (x - x_b b) + (y - y_b b) * (y - y_b b) \<le> (radius b + 20) * (radius b + 20)"
  by (simp add: touches_def new_Ghost_def Let_def)

lemma boulder_collisions:
  "collisions
     [new_Ghost ''P1'' ''Ana'' ''blue'' 160 520, new_Ghost ''P2'' ''Bia'' ''red'' 320 520,
      new_Ghost ''P3'' ''Caio'' ''pink'' 480 520, new_Ghost ''P4'' ''Davi'' ''green'' 640 520]
     [\<lparr>x_b = 160, y_b = 4703 / 10, radius = 30, speed = 1\<rparr>,
      \<lparr>x_b = 160, y_b = 2353 / 5, radius = 30, speed = 2\<rparr>] []
   = ([''P1'', ''P1''],
      [UpdateGameState [(''eliminated_players'', Ids [''P1''])],
       UpdateGameState [(''eliminated_players'', Ids [''P1'', ''P1''])]])"
  by (simp add: collisions_def collideGhost_def hitByBoulder_def touches_new_Ghost id_g_new_Ghost)

lemma boulder_tick:
  "loop ''P2'' roster4 1016 (0, 0, 0) boulderRefs
   = (\<lparr>gameStateRef = Some \<lparr>ghosts = createGhosts (linePlace 4) roster4,
                             eliminatedPlayers = [''P1'', ''P1''],
                             gameCompleted = False,
                             boulders = [\<lparr>x_b = 160, y_b = 4703 / 10, radius = 30, speed = 1\<rparr>,
                                         \<lparr>x_b = 160, y_b = 2353 / 5, radius = 30, speed = 2\<rparr>]\<rparr>,
       lastTimeRef = 1016, lastSpawnRef = 900, keysPressed = {}\<rparr>,
      [UpdateGameState [(''eliminated_players'', Ids [''P1''])],
       UpdateGameState [(''eliminated_players'', Ids [''P1'', ''P1''])],
       RequestAnimationFrame])"
  unfolding boulderRefs_def ghosts_roster4
  by (simp add: loop_def Let_def ghosts_get_def ghosts_modify_def keyAxis_empty move_rest
      drift_rest boulder_collisions id_g_new_Ghost remainingPlayers_def)

lemma length_roster4: "length roster4 = 4"
  by (simp add: roster4_def)

lemma gridPlace4: "gridPlace 4 i = (150 + real (i mod 2) * 150, 150 + real (i div 2) * 150)"
proof -
  have "sqrt (real 4) = 2" by simp
  then have "nat \<lceil>sqrt (real 4)\<rceil> = 2" by simp
  then show ?thesis by (simp add: gridPlace_def Let_def)
qed

lemma tag_ghosts: "createGhosts (gridPlace 4) roster4 =
  [new_Ghost ''P1'' ''Ana'' ''blue'' 150 150, new_Ghost ''P2'' ''Bia'' ''red'' 300 150,
   new_Ghost ''P3'' ''Caio'' ''pink'' 150 300, new_Ghost ''P4'' ''Davi'' ''green'' 300 300]"
  by (simp add: createGhosts_def roster4_def mkPlayer_def gridPlace4 new_Ghost_def enumerate_eq_zip upt_rec)

lemma tag_holder: "initialBombHolder (str ''game-42'') roster4 = Some (mkPlayer ''P4'' ''Davi'' ''green'')"
  by (simp add: initialBombHolder_def selectByHash_def simpleHash_def
      hashRound_def toInt32_def str_def  roster4_def mkPlayer_def)

lemma tag_start:
  "TagBombGame_start (str ''game-42'') roster4 1000 = (Some (tagState []), [RequestAnimationFrame])"
  unfolding TagBombGame_start_def length_roster4 tag_ghosts tag_holder
  by (simp add: mkPlayer_def ghosts_modify_def new_Ghost_def tagState_def)

lemma tag_disconnect:
  "handlePlayerDisconnected ''P1'' roster4 ''P4'' (Some (tagState []))
     = (Some (tagState [''P4'']), [UpdateGameState [(''eliminated_players'', Ids [''P4''])]])"
  by (simp add: handlePlayerDisconnected_def tagState_def remainingPlayers_def new_Ghost_def Let_def)

lemma tag_next: "nextBombHolder (str ''game-42'') [''P4'', ''P4'']
   [new_Ghost ''P1'' ''Ana'' ''blue'' 150 150, new_Ghost ''P2'' ''Bia'' ''red'' 300 150,
    new_Ghost ''P3'' ''Caio'' ''pink'' 150 300] = Some (new_Ghost ''P3'' ''Caio'' ''pink'' 150 300)"
  by (simp add: nextBombHolder_def selectByHash_def simpleHash_def
      hashRound_def toInt32_def str_def toString.simps new_Ghost_def)

lemma tag_expiry:
  "eliminatedPlayers (fst (bombTimerStep (str ''game-42'') roster4 31000 (tagState [''P4''])))
     = [''P4'', ''P4'']
   \<and> bombHolderId (fst (bombTimerStep (str ''game-42'') roster4 31000 (tagState [''P4''])))
     = Some ''P3''
   \<and> snd (bombTimerStep (str ''game-42'') roster4 31000 (tagState [''P4'']))
     = [UpdateGameState [(''eliminated_players'', Ids [''P4'', ''P4'']), (''bomb_holder_id'', Null)],
        RequestAnimationFrame]"
  unfolding tagState_def bombTimerStep_def
  by (simp add: Let_def ghosts_modify_def remainingPlayers_def id_g_new_Ghost tag_next)

text \<open>The handler of a disconnect makes the membership test: it keeps a list without
  duplicates free of duplicates.\<close>

lemma handlePlayerDisconnected_distinct:
  assumes "distinct (eliminatedPlayers state)"
    and "fst (handlePlayerDisconnected currentPlayerId players playerId (Some state)) = Some state1"
  shows "distinct (eliminatedPlayers state1)"
  using assms
  by (auto simp: handlePlayerDisconnected_def Let_def split: if_splits list.splits)

text \<open>
  C5. The elimination list can hold an identifier twice. In BoulderRunGame the test for
  membership stands outside the loop over the boulders: a ghost within reach of two
  boulders in one frame is pushed twice. In TagBombGame the bomb timer pushes the holder
  without a test: when the holder was already entered by \<open>handlePlayerDisconnected\<close>, the
  expiry of the timer enters it again.
\<close>

theorem elimination_list_duplicates:
  "map_option eliminatedPlayers
     (gameStateRef (fst (loop ''P2'' roster4 1016 (0, 0, 0) boulderRefs))) = Some [''P1'', ''P1'']
   \<and> TagBombGame_start (str ''game-42'') roster4 1000 = (Some (tagState []), [RequestAnimationFrame])
   \<and> fst (handlePlayerDisconnected ''P1'' roster4 ''P4'' (Some (tagState []))) = Some (tagState [''P4''])
   \<and> eliminatedPlayers (fst (bombTimerStep (str ''game-42'') roster4 31000 (tagState [''P4''])))
       = [''P4'', ''P4'']"
  by (simp add: boulder_tick tag_start tag_disconnect tag_expiry)

section \<open>Properties of the start with fewer than two players\<close>

lemma lone_start: "BoulderRunGame_start lone = (loneRefs 0 False, [RequestAnimationFrame])"
  by (simp add: BoulderRunGame_start_def lone_def createGhosts_def mkPlayer_def linePlace_def
      enumerate_eq_zip loneRefs_def)

lemma lone_frame1: "loop ''P1'' lone 16 rnd (loneRefs 0 False) = (loneRefs 16 False, [RequestAnimationFrame])"
  by (simp add: loop_def loneRefs_def)

lemma lone_results:
  "computeResults lone [new_Ghost ''P1'' ''Ana'' ''blue'' 400 520] []
     (new_Ghost ''P1'' ''Ana'' ''blue'' 400 520)
   = [\<lparr>player_id = ''P1'', player_name_r = ''Ana'', rank = 1, points = 1\<rparr>]"
  by (simp add: computeResults_def lone_def mkPlayer_def new_Ghost_def missingResult_def)

lemma lone_frame2:
  "loop ''P1'' lone 32 rnd (loneRefs 16 False)
   = (loneRefs 32 True,
      [UpdateGameState [(''eliminated_players'', Ids []), (''game_completed'', Bool True),
         (''results'', Results [\<lparr>player_id = ''P1'', player_name_r = ''Ana'', rank = 1, points = 1\<rparr>])],
       GameComplete [\<lparr>player_id = ''P1'', player_name_r = ''Ana'', rank = 1, points = 1\<rparr>]])"
  unfolding loneRefs_def
  by (simp add: loop_def Let_def ghosts_get_def ghosts_modify_def keyAxis_empty move_rest
      drift_rest id_g_new_Ghost remainingPlayers_def collisions_def collideGhost_def lone_results)

lemma empty_start: "BoulderRunGame_start [] = (emptyRefs 0, [RequestAnimationFrame])"
  by (simp add: BoulderRunGame_start_def createGhosts_def emptyRefs_def)

lemma empty_frame1: "loop ''P1'' [] 16 rnd (emptyRefs 0) = (emptyRefs 16, [RequestAnimationFrame])"
  by (simp add: loop_def emptyRefs_def)

lemma empty_frame2: "loop ''P1'' [] 32 rnd (emptyRefs 16) = (emptyRefs 32, [RequestAnimationFrame])"
  by (simp add: loop_def emptyRefs_def Let_def ghosts_get_def remainingPlayers_def collisions_def)

lemma empty_roster_never_completes:
  assumes "gameStateRef refs = Some state" and "ghosts state = []"
  shows "snd (loop cur players t rnd refs) = [RequestAnimationFrame]
    \<and> (\<exists>state1. gameStateRef (fst (loop cur players t rnd refs)) = Some state1
          \<and> ghosts state1 = [])"
  using assms
  by (simp add: loop_def Let_def ghosts_get_def remainingPlayers_def collisions_def)

text \<open>The branch of the three games that have it.\<close>

lemma short_circuit_three_games:
  assumes "length players < 2"
  shows "TagBombGame_start gameSessionId players now = (None, [GameComplete (loneResults players)])"
    and "PlatformPushGame_start players = (None, [GameComplete (loneResults players)])"
    and "FallingTilesGame_start players = (None, [GameComplete (loneResults players)])"
    and "map player_id (loneResults players) = map id_p players"
    and "\<forall>r\<in>set (loneResults players). rank r = 1 \<and> points r = 1"
  using assms
  by (auto simp: TagBombGame_start_def PlatformPushGame_start_def FallingTilesGame_start_def
      loneResults_def)

text \<open>
  C7. With one player, TagBombGame, PlatformPushGame and FallingTilesGame complete at
  the start with rank 1 and 1 point and leave no game state. BoulderRunGame has no such
  branch: its start creates the state and schedules the loop; with one player the result
  comes out of the second frame of the loop, and with no player each frame only
  schedules the next one.
\<close>

theorem short_circuit_missing_in_boulder_run:
  "TagBombGame_start (str ''game-42'') lone 1000
     = (None, [GameComplete [\<lparr>player_id = ''P1'', player_name_r = ''Ana'', rank = 1, points = 1\<rparr>]])
   \<and> PlatformPushGame_start lone
     = (None, [GameComplete [\<lparr>player_id = ''P1'', player_name_r = ''Ana'', rank = 1, points = 1\<rparr>]])
   \<and> FallingTilesGame_start lone
     = (None, [GameComplete [\<lparr>player_id = ''P1'', player_name_r = ''Ana'', rank = 1, points = 1\<rparr>]])
   \<and> BoulderRunGame_start lone = (loneRefs 0 False, [RequestAnimationFrame])
   \<and> loop ''P1'' lone 16 (0, 0, 0) (loneRefs 0 False) = (loneRefs 16 False, [RequestAnimationFrame])
   \<and> GameComplete [\<lparr>player_id = ''P1'', player_name_r = ''Ana'', rank = 1, points = 1\<rparr>]
       \<in> set (snd (loop ''P1'' lone 32 (0, 0, 0) (loneRefs 16 False)))
   \<and> BoulderRunGame_start [] = (emptyRefs 0, [RequestAnimationFrame])
   \<and> loop ''P1'' [] 16 (0, 0, 0) (emptyRefs 0) = (emptyRefs 16, [RequestAnimationFrame])
   \<and> loop ''P1'' [] 32 (0, 0, 0) (emptyRefs 16) = (emptyRefs 32, [RequestAnimationFrame])"
  by (simp add: lone_start lone_frame1 lone_frame2 empty_start empty_frame1 empty_frame2)
    (simp add: TagBombGame_start_def PlatformPushGame_start_def FallingTilesGame_start_def
      loneResults_def lone_def mkPlayer_def)



section \<open>Properties of the completion of a game\<close>

lemma find_map_same_id:
  assumes "\<And>p. id_p (f p) = id_p p"
  shows "find (\<lambda>p. id_p p = k) (map f ps) = map_option f (find (\<lambda>p. id_p p = k) ps)"
  using assms by (induction ps) auto

lemma scoreOf_patch_player:
  "scoreOf pid (snd (patch_player k v db))
     = (if pid = k \<and> inInt32 v then map_option (\<lambda>_. v) (scoreOf pid db) else scoreOf pid db)"
proof (cases "inInt32 v")
  case False
  then show ?thesis by (simp add: patch_player_def)
next
  case True
  let ?f = "\<lambda>p. if id_p p = k then p\<lparr>total_score := v\<rparr> else p"
  have "find (\<lambda>p. id_p p = pid) (map ?f (players_t db))
          = map_option ?f (find (\<lambda>p. id_p p = pid) (players_t db))"
    by (rule find_map_same_id) simp
  then show ?thesis using True
    by (cases "find (\<lambda>p. id_p p = pid) (players_t db)")
      (auto simp: scoreOf_def patch_player_def Let_def split: option.splits dest: find_Some_iff[THEN iffD1])
qed

lemma scoreOf_updateScore:
  "scoreOf pid (updateScore db r)
     = (if player_id r = pid
        then map_option (\<lambda>s. if inInt32 (s + points r) then s + points r else s) (scoreOf pid db)
        else scoreOf pid db)"
proof (cases "find (\<lambda>p. id_p p = player_id r) (players_t db)")
  case None
  then show ?thesis by (auto simp: updateScore_def get_player_def scoreOf_def)
next
  case (Some p)
  then show ?thesis
    by (auto simp: updateScore_def get_player_def scoreOf_patch_player) (simp_all add: scoreOf_def)
qed

lemma sessions_updateScore: "game_sessions_t (updateScore db r) = game_sessions_t db"
  by (simp add: updateScore_def get_player_def patch_player_def Let_def split: option.splits)

lemma sessions_foldl_updateScore: "game_sessions_t (foldl updateScore db rs) = game_sessions_t db"
  by (induction rs arbitrary: db) (simp_all add: sessions_updateScore)

lemma scoreOf_foldl_updateScore:
  "scoreOf pid (foldl updateScore db rs)
     = map_option (\<lambda>s. foldl (\<lambda>a p. if inInt32 (a + p) then a + p else a) s
                          (map points (filter (\<lambda>r. player_id r = pid) rs)))
         (scoreOf pid db)"
proof (induction rs arbitrary: db)
  case Nil
  show ?case by (simp add: option.map_ident)
next
  case (Cons r rs)
  show ?case
    by (cases "scoreOf pid db") (simp_all add: Cons.IH scoreOf_updateScore)
qed

lemma foldl_scores_in_range:
  assumes "\<forall>p\<in>set ps. 0 \<le> p" "inInt32 s" "inInt32 (s + sum_list ps)"
  shows "foldl (\<lambda>a p. if inInt32 (a + p) then a + p else a) s ps = s + sum_list ps"
  using assms
proof (induction ps arbitrary: s)
  case Nil
  then show ?case by simp
next
  case (Cons p ps)
  have "0 \<le> sum_list ps"
    using Cons.prems(1) by (simp add: sum_list_nonneg)
  moreover have "0 \<le> p"
    using Cons.prems(1) by simp
  ultimately have "inInt32 (s + p)"
    using Cons.prems(2,3) by (simp add: inInt32_def)
  moreover have "inInt32 (s + p + sum_list ps)"
    using Cons.prems(3) by (simp add: add.assoc)
  ultimately show ?case
    using Cons.IH [of "s + p"] Cons.prems(1) by (simp add: add.assoc)
qed

lemma single_record_points:
  assumes "distinct (map player_id rs)" "r \<in> set rs"
  shows "map points (filter (\<lambda>x. player_id x = player_id r) rs) = [points r]"
  using assms
proof (induction rs)
  case Nil
  then show ?case by simp
next
  case (Cons a rs)
  have "player_id a \<notin> player_id ` set rs"
    using Cons.prems(1) by simp
  then have "\<forall>x\<in>set rs. player_id x \<noteq> player_id a"
    by (metis imageI)
  then have none: "filter (\<lambda>x. player_id x = player_id a) rs = []"
    by (simp add: filter_empty_conv)
  show ?case
  proof (cases "r = a")
    case True
    then show ?thesis using none by simp
  next
    case False
    then have "r \<in> set rs" using Cons.prems(2) by simp
    moreover have "player_id a \<noteq> player_id r"
      using Cons.prems(1) \<open>r \<in> set rs\<close> by auto
    ultimately show ?thesis using Cons.IH Cons.prems(1) by simp
  qed
qed

lemma sessionOf_patch:
  assumes "sessionOf gameId db = Some g"
  shows "sessionOf gameId (snd (patch_game_session gameId u db))
           = Some (if status_u u = None \<and> results_u u = None \<and> started_at_u u = None
                      \<and> completed_at_u u = None \<and> game_state_u u = None
                   then g else applyPatch u g)"
proof -
  have id: "id_s (applyPatch u x) = id_s x" for x :: "('a, 'b) GameSession"
    by (simp add: applyPatch_def)
  have "find (\<lambda>g. id_s g = gameId) (map (\<lambda>g. if id_s g = gameId then applyPatch u g else g) gs)
          = map_option (applyPatch u) (find (\<lambda>g. id_s g = gameId) gs)" for gs
    by (induction gs) (auto simp: id)
  then show ?thesis using assms
    by (auto simp: sessionOf_def patch_game_session_def Let_def split: option.splits)
qed

text \<open>
  C8, as the claim states it, fails: the score of a player becomes the previous score plus
  the points only when the column can hold the sum. At a stored score of 2147483647 the
  request that writes 2147483651 is answered with an error, \<open>completeGame\<close> catches it,
  goes on with the other players and returns \<open>true\<close>, and the score stays where it was.
\<close>

theorem score_out_of_range_counterexample:
  "sessionOf ''s1'' topStore = Some session1
   \<and> scoreOf ''P1'' topStore = Some 2147483647
   \<and> player_id (hd ranking4) = ''P1'' \<and> points (hd ranking4) = 4
   \<and> fst (completeGame ''s1'' ranking4 ''2026-01-01T00:00:00.000Z'' topStore)
   \<and> scoreOf ''P1'' (snd (completeGame ''s1'' ranking4 ''2026-01-01T00:00:00.000Z'' topStore))
        = Some 2147483647
   \<and> scoreOf ''P1'' (snd (completeGame ''s1'' ranking4 ''2026-01-01T00:00:00.000Z'' topStore))
        \<noteq> Some (2147483647 + 4)"
proof -
  have cg: "completeGame ''s1'' ranking4 ''2026-01-01T00:00:00.000Z'' topStore
        = (True, foldl updateScore
             (snd (patch_game_session ''s1''
                \<lparr>status_u = Some Completed, results_u = Some ranking4, started_at_u = None,
                 completed_at_u = Some ''2026-01-01T00:00:00.000Z'', game_state_u = None\<rparr>
                topStore)) ranking4)"
    by (simp add: completeGame_def patch_game_session_def topStore_def session1_def Let_def
        applyPatch_def)
  have pl: "scoreOf ''P1'' (snd (patch_game_session ''s1''
                \<lparr>status_u = Some Completed, results_u = Some ranking4, started_at_u = None,
                 completed_at_u = Some ''2026-01-01T00:00:00.000Z'', game_state_u = None\<rparr>
                topStore)) = Some 2147483647"
    by (simp add: scoreOf_def patch_game_session_def topStore_def session1_def mkPlayer_def
        Let_def)
  show ?thesis
    unfolding cg
    by (simp add: scoreOf_foldl_updateScore pl)
      (simp add: sessionOf_def scoreOf_def topStore_def session1_def mkPlayer_def ranking4_def
        inInt32_def)
qed

text \<open>
  C8, amended. For a session that exists, one call of \<open>completeGame\<close> returns \<open>true\<close>; the
  session then has the status completed, the given results and the completion time.
  The score of a player is what the records of that player in the results make of it
  one after the other: a record adds its points when the column \<open>total_score\<close> can hold
  the sum and leaves the score as it is otherwise. So, when no player is listed twice,
  the score of a ranked player becomes the previous score plus that player's points if
  the sum is in the range of the column, and stays the previous score if it is not; and
  when no record has negative points, a score in the range becomes the previous score
  plus all the points of the player's records if that sum is in the range. Nothing is
  created for an identifier that is not a player.
\<close>

theorem completeGame_scores:
  assumes "sessionOf gameId db = Some g"
  shows "fst (completeGame gameId rs now db)
    \<and> sessionOf gameId (snd (completeGame gameId rs now db))
         = Some (g\<lparr>status_s := Completed, results := rs, completed_at := Some now\<rparr>)
    \<and> (\<forall>pid. scoreOf pid (snd (completeGame gameId rs now db))
          = map_option (\<lambda>s. foldl (\<lambda>a p. if inInt32 (a + p) then a + p else a) s
                               (map points (filter (\<lambda>r. player_id r = pid) rs)))
              (scoreOf pid db))
    \<and> (distinct (map player_id rs) \<longrightarrow>
         (\<forall>r\<in>set rs. scoreOf (player_id r) (snd (completeGame gameId rs now db))
            = map_option (\<lambda>s. if inInt32 (s + points r) then s + points r else s)
                (scoreOf (player_id r) db)))
    \<and> ((\<forall>r\<in>set rs. 0 \<le> points r) \<longrightarrow>
         (\<forall>pid s. scoreOf pid db = Some s \<and> inInt32 s
              \<and> inInt32 (s + sum_list (map points (filter (\<lambda>r. player_id r = pid) rs)))
            \<longrightarrow> scoreOf pid (snd (completeGame gameId rs now db))
                  = Some (s + sum_list (map points (filter (\<lambda>r. player_id r = pid) rs)))))"
proof -
  let ?u = "\<lparr>status_u = Some Completed, results_u = Some rs, started_at_u = None,
             completed_at_u = Some now, game_state_u = None :: 'b option\<rparr>"
  let ?add = "\<lambda>a p :: int. if inInt32 (a + p) then a + p else a"
  obtain res db1 where p: "patch_game_session gameId ?u db = (res, db1)"
    by (cases "patch_game_session gameId ?u db")
  have s1: "sessionOf gameId db1 = Some (applyPatch ?u g)"
    using sessionOf_patch [OF assms, of ?u] p by simp
  then have ok: "res = Inr (applyPatch ?u g)"
    using p by (auto simp: patch_game_session_def sessionOf_def Let_def split: option.splits)
  have pl: "players_t db1 = players_t db"
    using p by (auto simp: patch_game_session_def Let_def split: option.splits)
  have cg: "completeGame gameId rs now db = (True, foldl updateScore db1 rs)"
    by (simp add: completeGame_def p ok)
  have sess: "sessionOf gameId (foldl updateScore db1 rs)
        = Some (g\<lparr>status_s := Completed, results := rs, completed_at := Some now\<rparr>)"
    using s1 by (simp add: sessionOf_def sessions_foldl_updateScore applyPatch_def)
  have sc: "scoreOf pid (foldl updateScore db1 rs)
        = map_option (\<lambda>s. foldl ?add s (map points (filter (\<lambda>r. player_id r = pid) rs)))
              (scoreOf pid db)" for pid
    by (simp add: scoreOf_foldl_updateScore) (simp add: scoreOf_def pl)
  have one: "scoreOf (player_id r) (foldl updateScore db1 rs)
        = map_option (\<lambda>s. if inInt32 (s + points r) then s + points r else s)
            (scoreOf (player_id r) db)"
    if "distinct (map player_id rs)" "r \<in> set rs" for r
    by (simp add: sc single_record_points [OF that])
  have all: "scoreOf pid (foldl updateScore db1 rs)
        = Some (s + sum_list (map points (filter (\<lambda>r. player_id r = pid) rs)))"
    if "\<forall>r\<in>set rs. 0 \<le> points r" "scoreOf pid db = Some s" "inInt32 s"
       "inInt32 (s + sum_list (map points (filter (\<lambda>r. player_id r = pid) rs)))" for pid s
  proof -
    have "\<forall>p\<in>set (map points (filter (\<lambda>r. player_id r = pid) rs)). 0 \<le> p"
      using that(1) by simp
    then show ?thesis
      using foldl_scores_in_range [OF _ that(3,4)] by (simp add: sc that(2))
  qed
  show ?thesis
    unfolding cg using sess sc one all by simp
qed

theorem completeGame_scores_witness:
  "fst (completeGame ''s1'' ranking4 ''2026-01-01T00:00:00.000Z'' (store Playing))
   \<and> sessionOf ''s1'' (snd (completeGame ''s1'' ranking4 ''2026-01-01T00:00:00.000Z'' (store Playing)))
       = Some (session1\<lparr>status_s := Completed, results := ranking4,
                         completed_at := Some ''2026-01-01T00:00:00.000Z''\<rparr>)
   \<and> distinct (map player_id ranking4) \<and> list_all (\<lambda>r. 0 \<le> points r) ranking4
   \<and> map (\<lambda>pid. scoreOf pid
          (snd (completeGame ''s1'' ranking4 ''2026-01-01T00:00:00.000Z'' (store Playing))))
        [''P1'', ''P2'', ''P3'', ''P4'', ''P9'']
       = [Some 4, Some 2, Some 1, Some 3, None]"
  using completeGame_scores [of "''s1''" "store Playing" session1 ranking4
      "''2026-01-01T00:00:00.000Z''"]
  by (simp add: sessionOf_def store_def session1_def scoreOf_def roster4_def mkPlayer_def
      ranking4_def inInt32_def)

section \<open>Properties of joining a room and of room codes\<close>

lemma chars_facts:
  "length chars = 32" "distinct chars" "set (str ''IO01'') \<inter> set chars = {}"
  by (simp_all add: chars_def str_def)

lemma charAt_chars:
  assumes "0 \<le> r" and "r < 1"
  shows "\<exists>c\<in>set chars. charAt chars \<lfloor>r * real (length chars)\<rfloor> = [c]"
proof -
  let ?k = "\<lfloor>r * real (length chars)\<rfloor>"
  have "0 \<le> r * real (length chars)" using assms(1) by simp
  then have lo: "0 \<le> ?k" by simp
  have "r * real (length chars) < real (length chars)"
    using assms(2) by (simp add: chars_facts)
  then have hi: "?k < int (length chars)" by (simp add: floor_less_iff)
  then have "nat ?k < length chars" using lo by linarith
  then have m: "chars ! nat ?k \<in> set chars" by (rule nth_mem)
  have "charAt chars ?k = [chars ! nat ?k]"
    using lo hi by (simp only: charAt_def conj_absorb if_True simp_thms)
  then show ?thesis using m by blast
qed

lemma generateRoomCode_fold:
  assumes "\<forall>i\<in>set js. 0 \<le> rnd i \<and> rnd i < 1"
  shows "length (foldl (\<lambda>code i. code @ charAt chars \<lfloor>rnd i * real (length chars)\<rfloor>) acc js)
           = length acc + length js
    \<and> set (foldl (\<lambda>code i. code @ charAt chars \<lfloor>rnd i * real (length chars)\<rfloor>) acc js)
           \<subseteq> set acc \<union> set chars"
  using assms
proof (induction js arbitrary: acc)
  case Nil
  show ?case by simp
next
  case (Cons j js)
  obtain c where c: "c \<in> set chars" "charAt chars \<lfloor>rnd j * real (length chars)\<rfloor> = [c]"
    using Cons.prems charAt_chars [of "rnd j"] by auto
  have "\<forall>i\<in>set js. 0 \<le> rnd i \<and> rnd i < 1" using Cons.prems by simp
  from Cons.IH [OF this, of "acc @ [c]"] show ?case using c by auto
qed

lemma generateRoomCode_shape:
  assumes "\<forall>i<6. 0 \<le> rnd i \<and> rnd i < 1"
  shows "length (generateRoomCode rnd) = 6 \<and> set (generateRoomCode rnd) \<subseteq> set chars"
  using generateRoomCode_fold [of "[0..<6]" rnd "[]"] assms
  by (simp add: generateRoomCode_def)

lemma get_room_by_code_member:
  "get_room_by_code upper sqlNorm code db = Inr room \<Longrightarrow> room \<in> set (rooms_t db)"
  by (auto simp: get_room_by_code_def Let_def split: if_splits option.splits
      dest: find_Some_iff [THEN iffD1] intro: nth_mem)

lemma rooms_getByCode_member:
  "rooms_getByCode upper sqlNorm urlParam code db = Inr room \<Longrightarrow> room \<in> set (rooms_t db)"
  by (auto simp: rooms_getByCode_def split: option.splits dest: get_room_by_code_member)

lemma joinRoom_None_writes_nothing:
  "fst (joinRoom upper sqlNorm urlParam rnd newId roomCode playerName env1 env2 db) = None \<Longrightarrow>
   fst (snd (joinRoom upper sqlNorm urlParam rnd newId roomCode playerName env1 env2 db))
     \<in> {db, env1 db, env2 (env1 db)}"
  by (auto simp: joinRoom_def Let_def post_player_def split: if_splits sum.splits prod.splits)

lemma joinRoom_rejects:
  assumes "rooms_getByCode upper sqlNorm urlParam (upper (trim roomCode)) db = Inr room"
    and "status_r room \<noteq> Waiting
         \<or> length (get_players_by_room (id_r room) (env1 db)) \<ge> 10
         \<or> set palette \<subseteq> ghost_color ` set (get_players_by_room (id_r room) (env1 db))"
  shows "fst (joinRoom upper sqlNorm urlParam rnd newId roomCode playerName env1 env2 db) = None"
proof -
  have "filter (\<lambda>c. c \<notin> ghost_color ` set (get_players_by_room (id_r room) (env1 db))) palette = []"
    if "set palette \<subseteq> ghost_color ` set (get_players_by_room (id_r room) (env1 db))"
    using that by (auto simp: filter_empty_conv)
  then show ?thesis using assms
    by (auto simp: joinRoom_def Let_def)
qed

lemma joinRoom_not_waiting:
  assumes "rooms_getByCode upper sqlNorm urlParam (upper (trim roomCode)) db = Inr room"
    and "status_r room \<noteq> Waiting"
  shows "fst (snd (joinRoom upper sqlNorm urlParam rnd newId roomCode playerName env1 env2 db)) = db"
  using assms by (auto simp: joinRoom_def Let_def)

lemma joinRoom_Some:
  assumes "fst (joinRoom upper sqlNorm urlParam rnd newId roomCode playerName env1 env2 db)
             = Some (room, player)"
  shows "rooms_getByCode upper sqlNorm urlParam (upper (trim roomCode)) db = Inr room
    \<and> status_r room = Waiting
    \<and> length (get_players_by_room (id_r room) (env1 db)) < 10
    \<and> ghost_color player \<in> set palette
    \<and> ghost_color player \<notin> ghost_color ` set (get_players_by_room (id_r room) (env1 db))
    \<and> room_id player = id_r room \<and> id_p player = newId \<and> player_name player = playerName
    \<and> total_score player = 0
    \<and> fst (snd (joinRoom upper sqlNorm urlParam rnd newId roomCode playerName env1 env2 db))
         = (env2 (env1 db))\<lparr>players_t := players_t (env2 (env1 db)) @ [player]\<rparr>"
proof -
  let ?code = "upper (trim roomCode)"
  let ?J = "joinRoom upper sqlNorm urlParam rnd newId roomCode playerName env1 env2 db"
  let ?db3 = "env2 (env1 db)"
  from assms obtain r where r: "rooms_getByCode upper sqlNorm urlParam ?code db = Inr r"
    by (auto simp: joinRoom_def Let_def split: if_splits sum.splits)
  let ?existing = "get_players_by_room (id_r r) (env1 db)"
  let ?avail = "filter (\<lambda>c. c \<notin> set (map ghost_color ?existing)) palette"
  let ?k = "\<lfloor>rnd * real (length ?avail)\<rfloor>"
  from assms r have w: "status_r r = Waiting" and ne: "length ?avail \<noteq> 0"
    and lt: "\<not> length ?existing \<ge> 10" and k: "0 \<le> ?k" "?k < int (length ?avail)"
    and six: "?code \<noteq> []" "length ?code = 6"
    by (auto simp: joinRoom_def Let_def split: if_splits)
  let ?pl = "\<lparr>id_p = newId, room_id = id_r r, player_name = playerName,
              ghost_color = ?avail ! nat ?k, total_score = 0\<rparr>"
  have fk: "id_r r \<in> id_r ` set (rooms_t ?db3)"
    using assms r w ne lt k six
    by (auto simp: joinRoom_def Let_def post_player_def split: if_splits)
  have pp: "post_player newId (id_r r) playerName (?avail ! nat ?k) ?db3
              = (Inr ?pl, ?db3\<lparr>players_t := players_t ?db3 @ [?pl]\<rparr>)"
    using fk by (simp add: post_player_def)
  have res: "?J = (Some (r, ?pl), ?db3\<lparr>players_t := players_t ?db3 @ [?pl]\<rparr>,
                  [GetRoomByCode ?code, GetPlayersByRoom (id_r r),
                   CreatePlayer (id_r r) playerName (Some (?avail ! nat ?k))])"
    using r w ne lt k six pp
    by (simp add: joinRoom_def Let_def)
  have "fst ?J = Some (r, ?pl)"
    by (simp only: res fst_conv)
  with assms have "Some (room, player) = Some (r, ?pl)"
    by (simp only:)
  then have eq: "room = r" "player = ?pl" by blast+
  have "nat ?k < length ?avail" using k by linarith
  then have "?avail ! nat ?k \<in> set ?avail" by (rule nth_mem)
  then have col: "?avail ! nat ?k \<in> set palette"
    "?avail ! nat ?k \<notin> ghost_color ` set ?existing" by auto
  have db: "fst (snd ?J) = ?db3\<lparr>players_t := players_t ?db3 @ [?pl]\<rparr>"
    by (simp only: res fst_conv snd_conv)
  have lt': "length ?existing < 10" using lt by simp
  show ?thesis unfolding eq using r w lt' col db by simp
qed

lemma str_ABCDSS: "str ''ABCDSS'' = [65, 66, 67, 68, 83, 83]"
  by (simp add: str_def)

lemma sharp_trim: "trim sharpCode = [65, 66, 67, 68, 223]"
  by (simp add: sharpCode_def str_def trim_def isWhiteSpace_def)

lemma sharp_upper: "toUpperCase_latin1 [65, 66, 67, 68, 223] = [65, 66, 67, 68, 83, 83]"
  by (simp add: toUpperCase_latin1_def upperUnit_def)

lemma upper_fix: "toUpperCase_latin1 (trim [65, 66, 67, 68, 83, 83]) = [65, 66, 67, 68, 83, 83]"
  by (simp add: toUpperCase_latin1_def upperUnit_def trim_def isWhiteSpace_def)

lemma sql_fix: "sqlNorm_C [65, 66, 67, 68, 83, 83] = [65, 66, 67, 68, 83, 83]"
  by (simp add: sqlNorm_C_def)

lemma param_ABCDSS: "urlParam_plain [65, 66, 67, 68, 83, 83] = Some [65, 66, 67, 68, 83, 83]"
  by (simp add: urlParam_plain_def isAlnum_def)

lemma lookup_ABCDSS:
  "rooms_getByCode toUpperCase_latin1 sqlNorm_C urlParam_plain [65, 66, 67, 68, 83, 83] (store st)
     = Inr (room1 st)"
  by (simp add: rooms_getByCode_def param_ABCDSS get_room_by_code_def upper_fix sql_fix store_def
      room1_def str_ABCDSS Let_def)
    (simp add: trim_def isWhiteSpace_def)

lemma existing_r1: "get_players_by_room ''r1'' (store st) = roster4"
  by (simp add: get_players_by_room_def store_def roster4_def mkPlayer_def)

lemma available_r1:
  "filter (\<lambda>c. c \<notin> ghost_color ` set roster4) palette
     = [''purple'', ''orange'', ''yellow'', ''cyan'', ''white'', ''gray'']"
  by (simp add: roster4_def mkPlayer_def palette_def)

lemma room1_fields: "status_r (room1 st) = st" "id_r (room1 st) = ''r1''"
  by (simp_all add: room1_def)

lemma post_r1:
  "post_player ''P5'' ''r1'' ''Eva'' ''cyan'' (store st)
     = (Inr joined, (store st)\<lparr>players_t := roster4 @ [joined]\<rparr>)"
  by (simp add: post_player_def store_def room1_def joined_def Let_def)

lemma post_r1_after_rival:
  "post_player ''P5'' ''r1'' ''Eva'' ''cyan'' (rivalJoins (store st))
     = (Inr joined, (store st)\<lparr>players_t := roster4 @ [rival, joined]\<rparr>)"
  by (simp add: post_player_def rivalJoins_def store_def room1_def joined_def Let_def)

lemma typed_norm: "toUpperCase_latin1 (trim typedCode) = [65, 66, 67, 68, 83, 83]"
  by (simp add: typedCode_def str_def trim_def isWhiteSpace_def toUpperCase_latin1_def
      upperUnit_def)

lemma sharp_norm: "toUpperCase_latin1 (trim sharpCode) = [65, 66, 67, 68, 83, 83]"
  by (simp only: sharp_trim sharp_upper)

lemma join_waiting:
  assumes "toUpperCase_latin1 (trim code) = [65, 66, 67, 68, 83, 83]"
  shows "joinRoom toUpperCase_latin1 sqlNorm_C urlParam_plain (1 / 2) ''P5'' code ''Eva''
           (\<lambda>d. d) (\<lambda>d. d) (store Waiting)
     = (Some (room1 Waiting, joined),
        (store Waiting)\<lparr>players_t := roster4 @ [joined]\<rparr>,
        [GetRoomByCode (str ''ABCDSS''), GetPlayersByRoom ''r1'',
         CreatePlayer ''r1'' ''Eva'' (Some ''cyan'')])"
  unfolding joinRoom_def assms Let_def lookup_ABCDSS
  by (simp add: room1_fields existing_r1 available_r1 str_ABCDSS length_roster4 post_r1)

lemma join_playing:
  assumes "toUpperCase_latin1 (trim code) = [65, 66, 67, 68, 83, 83]"
  shows "joinRoom toUpperCase_latin1 sqlNorm_C urlParam_plain (1 / 2) ''P5'' code ''Eva''
           (\<lambda>d. d) (\<lambda>d. d) (store Playing)
     = (None, store Playing, [GetRoomByCode (str ''ABCDSS'')])"
  unfolding joinRoom_def assms Let_def lookup_ABCDSS
  by (simp add: room1_fields str_ABCDSS)

lemma join_after_rival:
  assumes "toUpperCase_latin1 (trim code) = [65, 66, 67, 68, 83, 83]"
  shows "joinRoom toUpperCase_latin1 sqlNorm_C urlParam_plain (1 / 2) ''P5'' code ''Eva''
           (\<lambda>d. d) rivalJoins (store Waiting)
     = (Some (room1 Waiting, joined),
        (store Waiting)\<lparr>players_t := roster4 @ [rival, joined]\<rparr>,
        [GetRoomByCode (str ''ABCDSS''), GetPlayersByRoom ''r1'',
         CreatePlayer ''r1'' ''Eva'' (Some ''cyan'')])"
  unfolding joinRoom_def assms Let_def lookup_ABCDSS
  by (simp add: room1_fields existing_r1 available_r1 str_ABCDSS length_roster4
      post_r1_after_rival)

text \<open>
  The code \<open>abc?ef\<close> has six code units, so it passes the test of \<open>joinRoom\<close>; the
  question mark ends the path of the URL, the server looks up \<open>ABC\<close>, and the join
  enters the room of that code.
\<close>

lemma query_norm: "toUpperCase_latin1 (trim queryCode) = [65, 66, 67, 63, 69, 70]"
  by (simp add: queryCode_def str_def trim_def isWhiteSpace_def toUpperCase_latin1_def
      upperUnit_def)

lemma lookup_query:
  "rooms_getByCode toUpperCase_latin1 sqlNorm_C urlParam_plain [65, 66, 67, 63, 69, 70] shortStore
     = Inr ((room1 Waiting)\<lparr>room_code := str ''ABC''\<rparr>)"
  by (simp add: rooms_getByCode_def urlParam_plain_def isAlnum_def get_room_by_code_def
      shortStore_def room1_def str_def sqlNorm_C_def Let_def trim_def isWhiteSpace_def
      toUpperCase_latin1_def upperUnit_def)

lemma join_query_code:
  "joinRoom toUpperCase_latin1 sqlNorm_C urlParam_plain (1 / 2) ''P5'' queryCode ''Eva''
     (\<lambda>d. d) (\<lambda>d. d) shortStore
     = (Some ((room1 Waiting)\<lparr>room_code := str ''ABC''\<rparr>, joined),
        shortStore\<lparr>players_t := roster4 @ [joined]\<rparr>,
        [GetRoomByCode (str ''ABC?EF''), GetPlayersByRoom ''r1'',
         CreatePlayer ''r1'' ''Eva'' (Some ''cyan'')])"
proof -
  have existing: "get_players_by_room ''r1'' shortStore = roster4"
    by (simp add: get_players_by_room_def shortStore_def roster4_def mkPlayer_def)
  have post: "post_player ''P5'' ''r1'' ''Eva'' ''cyan'' shortStore
     = (Inr joined, shortStore\<lparr>players_t := roster4 @ [joined]\<rparr>)"
    by (simp add: post_player_def shortStore_def room1_def joined_def Let_def)
  have code: "str ''ABC?EF'' = [65, 66, 67, 63, 69, 70]"
    by (simp add: str_def)
  show ?thesis
    unfolding joinRoom_def query_norm Let_def lookup_query
    by (simp add: room1_fields existing available_r1 code length_roster4 post)
qed

text \<open>
  C6, as the claim states it, fails where another client adds a player between the
  requests of the join: the join reads the four players of the room, another client then
  adds a cyan player, and the join inserts its own cyan player; the new player has the
  colour of a member the room had when the player was created.
\<close>

theorem join_race_counterexample:
  "fst (joinRoom toUpperCase_latin1 sqlNorm_C urlParam_plain (1 / 2) ''P5'' typedCode ''Eva''
          (\<lambda>d. d) rivalJoins (store Waiting)) = Some (room1 Waiting, joined)
   \<and> rival \<in> set (get_players_by_room ''r1'' (rivalJoins (store Waiting)))
   \<and> ghost_color joined = ghost_color rival
   \<and> get_players_by_room ''r1''
        (fst (snd (joinRoom toUpperCase_latin1 sqlNorm_C urlParam_plain (1 / 2) ''P5'' typedCode
                     ''Eva'' (\<lambda>d. d) rivalJoins (store Waiting))))
       = roster4 @ [rival, joined]"
  by (simp add: join_after_rival [OF typed_norm])
    (simp add: get_players_by_room_def rivalJoins_def store_def roster4_def mkPlayer_def
      rival_def joined_def)

text \<open>
  C6, amended. The guards of \<open>joinRoom\<close> are about what its own requests read. When the
  room that the lookup returns is not waiting, or the players read for that room are ten
  or more, or they use every colour of the palette, \<open>joinRoom\<close> returns \<open>null\<close> (and in
  the first case nothing has changed the database). Whenever it returns \<open>null\<close> the join
  has written nothing: the database is the one the other clients left. When it returns a
  room and a player, the lookup returned that room, waiting; the players read were fewer
  than ten; the player is the one row the join adds to the database, it belongs to that
  room, and its colour is a colour of the palette that none of the players read had. If
  the players of the room at the insertion are the players read, then no member of the
  room has that colour when the player is created, and the room has fewer than ten
  members then.
\<close>

theorem joinRoom_guards:
  "(\<forall>room. rooms_getByCode upper sqlNorm urlParam (upper (trim roomCode)) db = Inr room
       \<and> (status_r room \<noteq> Waiting
          \<or> length (get_players_by_room (id_r room) (env1 db)) \<ge> 10
          \<or> set palette \<subseteq> ghost_color ` set (get_players_by_room (id_r room) (env1 db)))
     \<longrightarrow> fst (joinRoom upper sqlNorm urlParam rnd newId roomCode playerName env1 env2 db) = None)
   \<and> (\<forall>room. rooms_getByCode upper sqlNorm urlParam (upper (trim roomCode)) db = Inr room
       \<and> status_r room \<noteq> Waiting
     \<longrightarrow> fst (snd (joinRoom upper sqlNorm urlParam rnd newId roomCode playerName env1 env2 db)) = db)
   \<and> (fst (joinRoom upper sqlNorm urlParam rnd newId roomCode playerName env1 env2 db) = None
     \<longrightarrow> fst (snd (joinRoom upper sqlNorm urlParam rnd newId roomCode playerName env1 env2 db))
           \<in> {db, env1 db, env2 (env1 db)})
   \<and> (\<forall>room newPlayer.
         fst (joinRoom upper sqlNorm urlParam rnd newId roomCode playerName env1 env2 db)
           = Some (room, newPlayer)
     \<longrightarrow> rooms_getByCode upper sqlNorm urlParam (upper (trim roomCode)) db = Inr room
         \<and> status_r room = Waiting
         \<and> length (get_players_by_room (id_r room) (env1 db)) < 10
         \<and> ghost_color newPlayer \<in> set palette
         \<and> ghost_color newPlayer \<notin> ghost_color ` set (get_players_by_room (id_r room) (env1 db))
         \<and> room_id newPlayer = id_r room
         \<and> fst (snd (joinRoom upper sqlNorm urlParam rnd newId roomCode playerName env1 env2 db))
              = (env2 (env1 db))\<lparr>players_t := players_t (env2 (env1 db)) @ [newPlayer]\<rparr>
         \<and> (get_players_by_room (id_r room) (env2 (env1 db))
               = get_players_by_room (id_r room) (env1 db)
             \<longrightarrow> ghost_color newPlayer
                   \<notin> ghost_color ` set (get_players_by_room (id_r room) (env2 (env1 db)))
                 \<and> length (get_players_by_room (id_r room) (env2 (env1 db))) < 10))"
proof (intro conjI allI impI)
  fix room
  assume "rooms_getByCode upper sqlNorm urlParam (upper (trim roomCode)) db = Inr room
       \<and> (status_r room \<noteq> Waiting
          \<or> length (get_players_by_room (id_r room) (env1 db)) \<ge> 10
          \<or> set palette \<subseteq> ghost_color ` set (get_players_by_room (id_r room) (env1 db)))"
  then show "fst (joinRoom upper sqlNorm urlParam rnd newId roomCode playerName env1 env2 db) = None"
    using joinRoom_rejects [of upper sqlNorm urlParam roomCode db room env1 rnd newId playerName env2]
    by blast
next
  fix room
  assume "rooms_getByCode upper sqlNorm urlParam (upper (trim roomCode)) db = Inr room
       \<and> status_r room \<noteq> Waiting"
  then show "fst (snd (joinRoom upper sqlNorm urlParam rnd newId roomCode playerName env1 env2 db)) = db"
    using joinRoom_not_waiting [of upper sqlNorm urlParam roomCode db room] by blast
next
  assume "fst (joinRoom upper sqlNorm urlParam rnd newId roomCode playerName env1 env2 db) = None"
  then show "fst (snd (joinRoom upper sqlNorm urlParam rnd newId roomCode playerName env1 env2 db))
           \<in> {db, env1 db, env2 (env1 db)}"
    by (rule joinRoom_None_writes_nothing)
next
  fix room newPlayer
  assume a: "fst (joinRoom upper sqlNorm urlParam rnd newId roomCode playerName env1 env2 db)
           = Some (room, newPlayer)"
  note s = joinRoom_Some [OF a]
  show "rooms_getByCode upper sqlNorm urlParam (upper (trim roomCode)) db = Inr room"
    using s by blast
  show "status_r room = Waiting" using s by blast
  show lt: "length (get_players_by_room (id_r room) (env1 db)) < 10" using s by blast
  show "ghost_color newPlayer \<in> set palette" using s by blast
  show col: "ghost_color newPlayer \<notin> ghost_color ` set (get_players_by_room (id_r room) (env1 db))"
    using s by blast
  show "room_id newPlayer = id_r room" using s by blast
  show "fst (snd (joinRoom upper sqlNorm urlParam rnd newId roomCode playerName env1 env2 db))
              = (env2 (env1 db))\<lparr>players_t := players_t (env2 (env1 db)) @ [newPlayer]\<rparr>"
    using s by blast
  assume same: "get_players_by_room (id_r room) (env2 (env1 db))
               = get_players_by_room (id_r room) (env1 db)"
  show "ghost_color newPlayer
          \<notin> ghost_color ` set (get_players_by_room (id_r room) (env2 (env1 db)))"
    unfolding same by (rule col)
  show "length (get_players_by_room (id_r room) (env2 (env1 db))) < 10"
    unfolding same by (rule lt)
qed

theorem joinRoom_guards_witness:
  "joinRoom toUpperCase_latin1 sqlNorm_C urlParam_plain (1 / 2) ''P5'' typedCode ''Eva''
       (\<lambda>d. d) (\<lambda>d. d) (store Playing)
     = (None, store Playing, [GetRoomByCode (str ''ABCDSS'')])
   \<and> fst (joinRoom toUpperCase_latin1 sqlNorm_C urlParam_plain (1 / 2) ''P5'' typedCode ''Eva''
            (\<lambda>d. d) (\<lambda>d. d) (store Waiting))
     = Some (room1 Waiting, joined)
   \<and> ghost_color joined \<notin> ghost_color ` set (get_players_by_room ''r1'' (store Waiting))
   \<and> length (get_players_by_room ''r1'' (store Waiting)) < 10
   \<and> fst (snd (joinRoom toUpperCase_latin1 sqlNorm_C urlParam_plain (1 / 2) ''P5'' typedCode ''Eva''
                 (\<lambda>d. d) (\<lambda>d. d) (store Waiting)))
     = (store Waiting)\<lparr>players_t := players_t (store Waiting) @ [joined]\<rparr>"
  using joinRoom_guards [of toUpperCase_latin1 sqlNorm_C urlParam_plain typedCode "store Playing"
      "\<lambda>d. d" "1 / 2" "''P5''" "''Eva''" "\<lambda>d. d"]
    joinRoom_guards [of toUpperCase_latin1 sqlNorm_C urlParam_plain typedCode "store Waiting"
      "\<lambda>d. d" "1 / 2" "''P5''" "''Eva''" "\<lambda>d. d"]
  by (simp add: join_playing [OF typed_norm] join_waiting [OF typed_norm] typed_norm
      lookup_ABCDSS room1_fields)

text \<open>
  C10, as stated, fails for the join: the length that \<open>joinRoom\<close> tests is that of the
  trimmed and upper-cased code, and upper-casing can change the length. The code
  \<open>ABCD\<close> followed by the sharp s has five code units after trimming and six after
  \<open>toUpperCase\<close> (\<open>ABCDSS\<close>); the join looks the room up and creates a player.
\<close>

theorem join_code_length_counterexample:
  "length (trim sharpCode) = 5
   \<and> length (toUpperCase_latin1 (trim sharpCode)) = 6
   \<and> joinRoom toUpperCase_latin1 sqlNorm_C urlParam_plain (1 / 2) ''P5'' sharpCode ''Eva''
       (\<lambda>d. d) (\<lambda>d. d) (store Waiting)
     = (Some (room1 Waiting, joined),
        (store Waiting)\<lparr>players_t := roster4 @ [joined]\<rparr>,
        [GetRoomByCode (str ''ABCDSS''), GetPlayersByRoom ''r1'',
         CreatePlayer ''r1'' ''Eva'' (Some ''cyan'')])"
  by (simp add: join_waiting [OF sharp_norm] sharp_trim sharp_upper)

text \<open>
  C10, amended. With every random number in \<open>[0, 1)\<close>, \<open>generateRoomCode\<close> returns six
  code units, each from the alphabet \<open>chars\<close>, which has 32 distinct characters and none
  of \<open>I\<close>, \<open>O\<close>, \<open>0\<close>, \<open>1\<close>. A join whose trimmed and upper-cased code does not have
  exactly six code units returns \<open>null\<close> without any request and leaves the database
  unchanged; where upper-casing keeps the length of the trimmed code, this is a test of
  the length of the trimmed code.
\<close>

theorem room_code_shape_and_length_check:
  "((\<forall>i<6. 0 \<le> rnd i \<and> rnd i < 1)
     \<longrightarrow> length (generateRoomCode rnd) = 6 \<and> set (generateRoomCode rnd) \<subseteq> set chars)
   \<and> length chars = 32 \<and> distinct chars \<and> set (str ''IO01'') \<inter> set chars = {}
   \<and> (length (upper (trim roomCode)) \<noteq> 6
     \<longrightarrow> joinRoom upper sqlNorm urlParam r newId roomCode playerName env1 env2 db = (None, db, []))
   \<and> (length (upper (trim roomCode)) = length (trim roomCode) \<and> length (trim roomCode) \<noteq> 6
     \<longrightarrow> joinRoom upper sqlNorm urlParam r newId roomCode playerName env1 env2 db = (None, db, []))"
  using generateRoomCode_shape [of rnd] chars_facts
  by (simp add: joinRoom_def)

theorem room_code_shape_and_length_check_witness:
  "generateRoomCode (\<lambda>i. real i / 8) = str ''AEJNSW''
   \<and> length (generateRoomCode (\<lambda>i. real i / 8)) = 6
   \<and> joinRoom toUpperCase_latin1 sqlNorm_C urlParam_plain (1 / 2) ''P5'' (str ''ABC'') ''Eva''
       (\<lambda>d. d) (\<lambda>d. d) (store Waiting)
       = (None, store Waiting, [])"
  using room_code_shape_and_length_check [of "\<lambda>i. real i / 8" toUpperCase_latin1 "str ''ABC''"
      sqlNorm_C urlParam_plain "1 / 2" "''P5''" "''Eva''" "\<lambda>d. d" "\<lambda>d. d" "store Waiting"]
  by (simp add: generateRoomCode_def chars_def str_def charAt_def upt_rec trim_def
      isWhiteSpace_def toUpperCase_latin1_def upperUnit_def)


end
